theory Spec2Isabelle
  imports Main "HOL-Library.Word"
begin

section \<open>The wrapper's helper layer (server/src/common.h, common.cc)\<close>

text \<open>
  The file common.cc holds the allocator callbacks handed to the inference engine
  (\<open>ResponseAlloc\<close>, \<open>ResponseRelease\<close>), the completion handler
  \<open>InferResponseComplete\<close> and the enum translators between the wrapper's enums of
  common.h and the native enums of \<open>tritonserver.h\<close>.

  Conventions of the embedding:
  \<^item> a pointer is an address (\<open>nat\<close>), \<open>nullptr\<close> is address 0;
  \<^item> an out-parameter \<open>T* p\<close> is an argument holding the content of \<open>*p\<close> before the
    call, and a component of the result holding its content after the call;
  \<^item> the wrapper's unscoped enums of common.h are integers, their enumerators the
    constants 0, 1, 2, ... of the declaration, so that a value outside the enumerators
    can be passed as in C++;
  \<^item> the native enums are declared in \<open>tritonserver.h\<close> and \<open>cuda_runtime_api.h\<close>, which
    are not part of the repository: each is a datatype of the enumerators the code names
    (distinct, since they label the cases of one \<open>switch\<close>) and one more constructor for
    every other value of the enum.
\<close>

subsection \<open>Enums of common.h\<close>

type_synonym ModelControlMode = int
type_synonym MemoryType = int
type_synonym LogFormat = int

definition MODEL_CONTROL_NONE :: ModelControlMode where "MODEL_CONTROL_NONE = 0"
definition MODEL_CONTROL_POLL :: ModelControlMode where "MODEL_CONTROL_POLL = 1"
definition MODEL_CONTROL_EXPLICIT :: ModelControlMode where "MODEL_CONTROL_EXPLICIT = 2"

definition CPU :: MemoryType where "CPU = 0"
definition CPU_PINNED :: MemoryType where "CPU_PINNED = 1"
definition GPU :: MemoryType where "GPU = 2"

definition LOG_DEFAULT :: LogFormat where "LOG_DEFAULT = 0"
definition LOG_ISO8601 :: LogFormat where "LOG_ISO8601 = 1"

subsection \<open>Native enums\<close>

datatype TRITONSERVER_ModelControlMode =
    TRITONSERVER_MODEL_CONTROL_NONE
  | TRITONSERVER_MODEL_CONTROL_POLL
  | TRITONSERVER_MODEL_CONTROL_EXPLICIT
  | TRITONSERVER_MODEL_CONTROL_other nat

datatype TRITONSERVER_LogFormat =
    TRITONSERVER_LOG_DEFAULT
  | TRITONSERVER_LOG_ISO8601
  | TRITONSERVER_LOG_other nat

datatype TRITONSERVER_MemoryType =
    TRITONSERVER_MEMORY_CPU
  | TRITONSERVER_MEMORY_CPU_PINNED
  | TRITONSERVER_MEMORY_GPU
  | TRITONSERVER_MEMORY_other nat

datatype TRITONSERVER_DataType =
    TRITONSERVER_TYPE_INVALID
  | TRITONSERVER_TYPE_BOOL
  | TRITONSERVER_TYPE_UINT8
  | TRITONSERVER_TYPE_UINT16
  | TRITONSERVER_TYPE_UINT32
  | TRITONSERVER_TYPE_UINT64
  | TRITONSERVER_TYPE_INT8
  | TRITONSERVER_TYPE_INT16
  | TRITONSERVER_TYPE_INT32
  | TRITONSERVER_TYPE_INT64
  | TRITONSERVER_TYPE_FP16
  | TRITONSERVER_TYPE_FP32
  | TRITONSERVER_TYPE_FP64
  | TRITONSERVER_TYPE_BYTES
  | TRITONSERVER_TYPE_BF16
  | TRITONSERVER_TYPE_other nat

subsection \<open>The class Error\<close>

text \<open>
  \<open>Error\<close> wraps a message; the empty message is success
  (\<open>const Error Error::Success("")\<close>, \<open>IsOk() { return msg_.empty(); }\<close>).
\<close>

record Error =
  msg :: string  \<comment> \<open>the member \<open>msg_\<close> of the class\<close>

definition Error_of :: "string \<Rightarrow> Error" where
  "Error_of m = \<lparr>msg = m\<rparr>"

definition Success :: Error where
  "Success = Error_of ''''"

definition Message :: "Error \<Rightarrow> string" where
  "Message e = msg e"

definition IsOk :: "Error \<Rightarrow> bool" where
  "IsOk e = (msg e = [])"

subsection \<open>Enum translators\<close>

text \<open>
  Each translator is a \<open>switch\<close> whose recognised cases write the out-parameter and
  fall out to \<open>return Error::Success\<close>, and whose \<open>default\<close> returns an error at once.
  The first argument is the content of the out-parameter's target before the call.
\<close>

definition ToTritonModelControlMode ::
  "TRITONSERVER_ModelControlMode \<Rightarrow> ModelControlMode \<Rightarrow> Error \<times> TRITONSERVER_ModelControlMode" where
  "ToTritonModelControlMode model_control_mode mode =
     (if mode = MODEL_CONTROL_NONE then (Success, TRITONSERVER_MODEL_CONTROL_NONE)
      else if mode = MODEL_CONTROL_POLL then (Success, TRITONSERVER_MODEL_CONTROL_POLL)
      else if mode = MODEL_CONTROL_EXPLICIT then (Success, TRITONSERVER_MODEL_CONTROL_EXPLICIT)
      else (Error_of ''unsupported model control mode.'', model_control_mode))"

definition ToTritonLogFormat ::
  "TRITONSERVER_LogFormat \<Rightarrow> LogFormat \<Rightarrow> Error \<times> TRITONSERVER_LogFormat" where
  "ToTritonLogFormat log_format format =
     (if format = LOG_DEFAULT then (Success, TRITONSERVER_LOG_DEFAULT)
      else if format = LOG_ISO8601 then (Success, TRITONSERVER_LOG_ISO8601)
      else (Error_of ''unsupported log format.'', log_format))"

definition ToTritonMemoryType ::
  "TRITONSERVER_MemoryType \<Rightarrow> MemoryType \<Rightarrow> Error \<times> TRITONSERVER_MemoryType" where
  "ToTritonMemoryType memory_type mem_type =
     (if mem_type = CPU then (Success, TRITONSERVER_MEMORY_CPU)
      else if mem_type = CPU_PINNED then (Success, TRITONSERVER_MEMORY_CPU_PINNED)
      else if mem_type = GPU then (Success, TRITONSERVER_MEMORY_GPU)
      else (Error_of ''unsupported memory type.'', memory_type))"

fun ToMemoryType :: "MemoryType \<Rightarrow> TRITONSERVER_MemoryType \<Rightarrow> Error \<times> MemoryType" where
  "ToMemoryType memory_type TRITONSERVER_MEMORY_CPU = (Success, CPU)"
| "ToMemoryType memory_type TRITONSERVER_MEMORY_CPU_PINNED = (Success, CPU_PINNED)"
| "ToMemoryType memory_type TRITONSERVER_MEMORY_GPU = (Success, GPU)"
| "ToMemoryType memory_type (TRITONSERVER_MEMORY_other v) =
     (Error_of ''unsupported memory type.'', memory_type)"

text \<open>
  \<open>ToTritonDataType\<close> compares the string with two spellings per type, in the order of
  the source, and writes \<open>TRITONSERVER_TYPE_INVALID\<close> when none matches. Every path
  writes the out-parameter and returns \<open>Error::Success\<close>. \<open>std::string\<close> equality is
  byte-wise, as equality of \<open>string\<close> is.
\<close>

definition ToTritonDataType :: "TRITONSERVER_DataType \<Rightarrow> string \<Rightarrow> Error \<times> TRITONSERVER_DataType" where
  "ToTritonDataType dtype data_type =
     (if data_type = ''BOOL'' \<or> data_type = ''TYPE_BOOL'' then (Success, TRITONSERVER_TYPE_BOOL)
      else if data_type = ''UINT8'' \<or> data_type = ''TYPE_UINT8'' then (Success, TRITONSERVER_TYPE_UINT8)
      else if data_type = ''UINT16'' \<or> data_type = ''TYPE_UINT16'' then (Success, TRITONSERVER_TYPE_UINT16)
      else if data_type = ''UINT32'' \<or> data_type = ''TYPE_UINT32'' then (Success, TRITONSERVER_TYPE_UINT32)
      else if data_type = ''UINT64'' \<or> data_type = ''TYPE_UINT64'' then (Success, TRITONSERVER_TYPE_UINT64)
      else if data_type = ''INT8'' \<or> data_type = ''TYPE_INT8'' then (Success, TRITONSERVER_TYPE_INT8)
      else if data_type = ''INT16'' \<or> data_type = ''TYPE_INT16'' then (Success, TRITONSERVER_TYPE_INT16)
      else if data_type = ''INT32'' \<or> data_type = ''TYPE_INT32'' then (Success, TRITONSERVER_TYPE_INT32)
      else if data_type = ''INT64'' \<or> data_type = ''TYPE_INT64'' then (Success, TRITONSERVER_TYPE_INT64)
      else if data_type = ''FP16'' \<or> data_type = ''TYPE_FP16'' then (Success, TRITONSERVER_TYPE_FP16)
      else if data_type = ''FP32'' \<or> data_type = ''TYPE_FP32'' then (Success, TRITONSERVER_TYPE_FP32)
      else if data_type = ''FP64'' \<or> data_type = ''TYPE_FP64'' then (Success, TRITONSERVER_TYPE_FP64)
      else if data_type = ''BYTES'' \<or> data_type = ''TYPE_STRING'' then (Success, TRITONSERVER_TYPE_BYTES)
      else if data_type = ''BF16'' \<or> data_type = ''TYPE_BF16'' then (Success, TRITONSERVER_TYPE_BF16)
      else (Success, TRITONSERVER_TYPE_INVALID))"

text \<open>
  The two spellings the source compares with for each type, and the types it can
  produce from a spelling.
\<close>

definition spellings :: "(string \<times> string \<times> TRITONSERVER_DataType) list" where
  "spellings =
     [(''BOOL'', ''TYPE_BOOL'', TRITONSERVER_TYPE_BOOL),
      (''UINT8'', ''TYPE_UINT8'', TRITONSERVER_TYPE_UINT8),
      (''UINT16'', ''TYPE_UINT16'', TRITONSERVER_TYPE_UINT16),
      (''UINT32'', ''TYPE_UINT32'', TRITONSERVER_TYPE_UINT32),
      (''UINT64'', ''TYPE_UINT64'', TRITONSERVER_TYPE_UINT64),
      (''INT8'', ''TYPE_INT8'', TRITONSERVER_TYPE_INT8),
      (''INT16'', ''TYPE_INT16'', TRITONSERVER_TYPE_INT16),
      (''INT32'', ''TYPE_INT32'', TRITONSERVER_TYPE_INT32),
      (''INT64'', ''TYPE_INT64'', TRITONSERVER_TYPE_INT64),
      (''FP16'', ''TYPE_FP16'', TRITONSERVER_TYPE_FP16),
      (''FP32'', ''TYPE_FP32'', TRITONSERVER_TYPE_FP32),
      (''FP64'', ''TYPE_FP64'', TRITONSERVER_TYPE_FP64),
      (''BYTES'', ''TYPE_STRING'', TRITONSERVER_TYPE_BYTES),
      (''BF16'', ''TYPE_BF16'', TRITONSERVER_TYPE_BF16)]"

definition recognized :: "string \<Rightarrow> bool" where
  "recognized s = (s \<in> set (map fst spellings) \<or> s \<in> set (map (fst \<circ> snd) spellings))"

section \<open>The allocator callbacks\<close>

subsection \<open>Pointers, external calls and the observable world\<close>

type_synonym ptr = nat
type_synonym size_t = nat
type_synonym int64_t = "64 word"
type_synonym c_int = "32 word"

definition nullptr :: ptr where
  "nullptr = 0"

datatype cudaError_t =
    cudaSuccess
  | cudaErrorNoDevice
  | cudaErrorInsufficientDriver
  | cudaError_other nat

datatype TRITONSERVER_Error_Code = TRITONSERVER_ERROR_INTERNAL

text \<open>
  A \<open>TRITONSERVER_Error*\<close> is a \<open>TRITONSERVER_Error option\<close>: \<open>None\<close> is \<open>nullptr\<close>,
  which the callbacks return for success.
\<close>

datatype TRITONSERVER_Error = TRITONSERVER_ErrorNew TRITONSERVER_Error_Code string

fun TRITONSERVER_ErrorMessage :: "TRITONSERVER_Error \<Rightarrow> string" where
  "TRITONSERVER_ErrorMessage (TRITONSERVER_ErrorNew c m) = m"

datatype TRITONSERVER_LogLevel = TRITONSERVER_LOG_ERROR | TRITONSERVER_LOG_VERBOSE

text \<open>
  The functions of the C library, of CUDA and of the engine that the callbacks call are
  parameters: what each returns for its arguments. \<open>cudaHostAlloc\<close> and \<open>cudaMalloc\<close>
  return their status together with the content of \<open>allocated_ptr\<close> after the call.
  \<open>ptr_string\<close> is the text \<open>operator<<\<close> prints for a \<open>void*\<close>.
\<close>

record env =
  cudaSetDevice :: "c_int \<Rightarrow> cudaError_t"
  cudaHostAlloc :: "size_t \<Rightarrow> cudaError_t \<times> ptr"
  cudaMalloc :: "size_t \<Rightarrow> cudaError_t \<times> ptr"
  malloc :: "size_t \<Rightarrow> ptr"
  cudaFreeHost :: "ptr \<Rightarrow> cudaError_t"
  cudaFree :: "ptr \<Rightarrow> cudaError_t"
  cudaGetErrorString :: "cudaError_t \<Rightarrow> string"
  TRITONSERVER_MemoryTypeString :: "TRITONSERVER_MemoryType \<Rightarrow> string"
  TRITONSERVER_ErrorCodeString :: "TRITONSERVER_Error \<Rightarrow> string"
  TRITONSERVER_LogMessage :: "TRITONSERVER_LogLevel \<Rightarrow> string \<Rightarrow> TRITONSERVER_Error option"
  ptr_string :: "ptr \<Rightarrow> string"

text \<open>Every call that leaves the callbacks is recorded, in order.\<close>

datatype call =
    Call_cudaSetDevice c_int
  | Call_cudaHostAlloc size_t
  | Call_cudaMalloc size_t
  | Call_malloc size_t
  | Call_free ptr
  | Call_cudaFreeHost ptr
  | Call_cudaFree ptr
  | Call_new_string ptr string
  | Call_delete_string ptr
  | Call_LogMessage TRITONSERVER_LogLevel string
  | Call_cerr string

text \<open>
  The \<open>std::string\<close> objects made by \<open>new\<close>: cell \<open>i\<close> of \<open>strings\<close> is the object
  at address \<open>i + 1\<close>, \<open>None\<close> once it is deleted. \<open>new\<close> takes the next address, which
  is never null; it is taken to succeed (no \<open>std::bad_alloc\<close>).
\<close>

record world =
  strings :: "string option list"
  calls :: "call list"

definition emit :: "call \<Rightarrow> world \<Rightarrow> world" where
  "emit c w = w\<lparr>calls := calls w @ [c]\<rparr>"

definition new_string :: "string \<Rightarrow> world \<Rightarrow> ptr \<times> world" where
  "new_string s w =
     (let p = Suc (length (strings w))
      in (p, emit (Call_new_string p s) (w\<lparr>strings := strings w @ [Some s]\<rparr>)))"

definition deref_string :: "world \<Rightarrow> ptr \<Rightarrow> string option" where
  "deref_string w p =
     (if p \<noteq> nullptr \<and> p \<le> length (strings w) then strings w ! (p - 1) else None)"

text \<open>\<open>delete\<close> of a null pointer does nothing.\<close>

definition delete_string :: "ptr \<Rightarrow> world \<Rightarrow> world" where
  "delete_string p w =
     (if p = nullptr then w
      else emit (Call_delete_string p) (w\<lparr>strings := (strings w)[p - 1 := None]\<rparr>))"

text \<open>\<open>std::to_string\<close> of an unsigned value: its decimal digits.\<close>

fun to_string :: "nat \<Rightarrow> string" where
  "to_string n =
     (if n < 10 then [char_of (48 + n)] else to_string (n div 10) @ [char_of (48 + n mod 10)])"

declare to_string.simps [simp del]

subsection \<open>The logging macros of common.h\<close>

text \<open>
  \<open>LOG_IF_ERROR(X, MSG)\<close> logs the error \<open>X\<close> returned, if any, at level error,
  ignoring the outcome of that second logging call; \<open>LOG_MESSAGE(LEVEL, MSG)\<close> is
  \<open>LOG_IF_ERROR(TRITONSERVER_LogMessage(LEVEL, ..., MSG), "failed to log message: ")\<close>.
\<close>

definition LOG_IF_ERROR :: "env \<Rightarrow> TRITONSERVER_Error option \<Rightarrow> string \<Rightarrow> world \<Rightarrow> world" where
  "LOG_IF_ERROR e x m w =
     (case x of
        None \<Rightarrow> w
      | Some lie_err \<Rightarrow>
          emit (Call_LogMessage TRITONSERVER_LOG_ERROR
                  (m @ '': '' @ TRITONSERVER_ErrorCodeString e lie_err @ '' - '' @
                   TRITONSERVER_ErrorMessage lie_err)) w)"

definition LOG_MESSAGE :: "env \<Rightarrow> TRITONSERVER_LogLevel \<Rightarrow> string \<Rightarrow> world \<Rightarrow> world" where
  "LOG_MESSAGE e level m w =
     LOG_IF_ERROR e (TRITONSERVER_LogMessage e level m) ''failed to log message: ''
       (emit (Call_LogMessage level m) w)"

subsection \<open>ResponseAlloc\<close>

text \<open>The four out-parameters of \<open>ResponseAlloc\<close>.\<close>

record alloc_out =
  buffer :: ptr
  buffer_userp :: ptr
  actual_memory_type :: TRITONSERVER_MemoryType
  actual_memory_type_id :: int64_t

text \<open>
  The \<open>switch\<close> on \<open>*actual_memory_type\<close>. The flag \<open>TRITON_ENABLE_GPU\<close> is the
  preprocessor symbol: without it the two CUDA cases are not compiled and their memory
  types reach \<open>default\<close>. \<open>cudaSetDevice\<close> takes an \<open>int\<close>: the 64-bit id is narrowed.
  The result is \<open>Inl\<close> the error of an early \<open>return\<close>, or \<open>Inr\<close> the content of
  \<open>allocated_ptr\<close> at the \<open>break\<close>.
\<close>

definition ResponseAlloc_switch ::
  "bool \<Rightarrow> env \<Rightarrow> size_t \<Rightarrow> alloc_out \<Rightarrow> world \<Rightarrow> (TRITONSERVER_Error + ptr) \<times> alloc_out \<times> world" where
  "ResponseAlloc_switch TRITON_ENABLE_GPU e byte_size out w =
     (if TRITON_ENABLE_GPU \<and> actual_memory_type out = TRITONSERVER_MEMORY_CPU_PINNED then
        (let dev = ucast (actual_memory_type_id out);
             err = cudaSetDevice e dev;
             w1 = emit (Call_cudaSetDevice dev) w
         in if err \<noteq> cudaSuccess \<and> err \<noteq> cudaErrorNoDevice \<and> err \<noteq> cudaErrorInsufficientDriver then
              (Inl (TRITONSERVER_ErrorNew TRITONSERVER_ERROR_INTERNAL
                      (''unable to recover current CUDA device: '' @ cudaGetErrorString e err)),
               out, w1)
            else
              (let err2 = fst (cudaHostAlloc e byte_size);
                   allocated_ptr = snd (cudaHostAlloc e byte_size);
                   w2 = emit (Call_cudaHostAlloc byte_size) w1
               in if err2 \<noteq> cudaSuccess then
                    (Inl (TRITONSERVER_ErrorNew TRITONSERVER_ERROR_INTERNAL
                            (''cudaHostAlloc failed: '' @ cudaGetErrorString e err2)),
                     out, w2)
                  else (Inr allocated_ptr, out, w2)))
      else if TRITON_ENABLE_GPU \<and> actual_memory_type out = TRITONSERVER_MEMORY_GPU then
        (let dev = ucast (actual_memory_type_id out);
             err = cudaSetDevice e dev;
             w1 = emit (Call_cudaSetDevice dev) w
         in if err \<noteq> cudaSuccess \<and> err \<noteq> cudaErrorNoDevice \<and> err \<noteq> cudaErrorInsufficientDriver then
              (Inl (TRITONSERVER_ErrorNew TRITONSERVER_ERROR_INTERNAL
                      (''unable to recover current CUDA device: '' @ cudaGetErrorString e err)),
               out, w1)
            else
              (let err2 = fst (cudaMalloc e byte_size);
                   allocated_ptr = snd (cudaMalloc e byte_size);
                   w2 = emit (Call_cudaMalloc byte_size) w1
               in if err2 \<noteq> cudaSuccess then
                    (Inl (TRITONSERVER_ErrorNew TRITONSERVER_ERROR_INTERNAL
                            (''cudaMalloc failed: '' @ cudaGetErrorString e err2)),
                     out, w2)
                  else (Inr allocated_ptr, out, w2)))
      else
        (Inr (malloc e byte_size),
         out\<lparr>actual_memory_type := TRITONSERVER_MEMORY_CPU\<rparr>,
         emit (Call_malloc byte_size) w))"

text \<open>
  \<open>ResponseAlloc\<close>: the arguments \<open>allocator\<close> and \<open>userp\<close> are not used by the body.
  The result is the returned error pointer, the out-parameters and the world after the
  call.
\<close>

definition ResponseAlloc ::
  "bool \<Rightarrow> env \<Rightarrow> ptr \<Rightarrow> string \<Rightarrow> size_t \<Rightarrow> TRITONSERVER_MemoryType \<Rightarrow> int64_t \<Rightarrow> ptr \<Rightarrow>
   alloc_out \<Rightarrow> world \<Rightarrow> TRITONSERVER_Error option \<times> alloc_out \<times> world" where
  "ResponseAlloc TRITON_ENABLE_GPU e allocator tensor_name byte_size preferred_memory_type
       preferred_memory_type_id userp out w =
     (let out1 = out\<lparr>actual_memory_type := preferred_memory_type,
                     actual_memory_type_id := preferred_memory_type_id\<rparr>
      in if byte_size = 0 then
           (None,
            out1\<lparr>buffer := nullptr, buffer_userp := nullptr\<rparr>,
            LOG_MESSAGE e TRITONSERVER_LOG_VERBOSE
              (''allocated '' @ to_string byte_size @ '' bytes for result tensor '' @ tensor_name) w)
         else
           (case ResponseAlloc_switch TRITON_ENABLE_GPU e byte_size out1 w of
              (Inl err, out2, w2) \<Rightarrow> (Some err, out2, w2)
            | (Inr allocated_ptr, out2, w2) \<Rightarrow>
                if allocated_ptr \<noteq> nullptr then
                  (let tag = fst (new_string tensor_name w2);
                       w3 = snd (new_string tensor_name w2);
                       out3 = out2\<lparr>buffer := allocated_ptr, buffer_userp := tag\<rparr>
                   in (None, out3,
                       LOG_MESSAGE e TRITONSERVER_LOG_VERBOSE
                         (''allocated '' @ to_string byte_size @ '' bytes in '' @
                          TRITONSERVER_MemoryTypeString e (actual_memory_type out3) @
                          '' for result tensor '' @ tensor_name) w3))
                else (None, out2, w2)))"

subsection \<open>ResponseRelease\<close>

text \<open>
  Reading \<open>*name\<close> or deleting it when \<open>name\<close> is not the address of a live
  \<open>std::string\<close> is undefined behaviour: the model stops with a fault there.
  \<open>InferResponseComplete\<close> has the same fault for \<open>userp\<close>, and \<open>set_value\<close> on a
  promise that already holds a value throws \<open>std::future_error\<close>.
\<close>

datatype fault = Invalid_pointer | Future_error

definition ResponseRelease_switch ::
  "bool \<Rightarrow> env \<Rightarrow> ptr \<Rightarrow> TRITONSERVER_MemoryType \<Rightarrow> int64_t \<Rightarrow> world \<Rightarrow> world" where
  "ResponseRelease_switch TRITON_ENABLE_GPU e buf memory_type memory_type_id w =
     (if memory_type = TRITONSERVER_MEMORY_CPU then emit (Call_free buf) w
      else if TRITON_ENABLE_GPU \<and> memory_type = TRITONSERVER_MEMORY_CPU_PINNED then
        (let dev = ucast memory_type_id;
             err = cudaSetDevice e dev;
             w1 = emit (Call_cudaSetDevice dev) w;
             err2 = (if err = cudaSuccess then cudaFreeHost e buf else err);
             w2 = (if err = cudaSuccess then emit (Call_cudaFreeHost buf) w1 else w1)
         in if err2 \<noteq> cudaSuccess then
              emit (Call_cerr (''error: failed to cudaFree '' @ ptr_string e buf @ '': '' @
                               cudaGetErrorString e err2 @ [CHR 0x0A])) w2
            else w2)
      else if TRITON_ENABLE_GPU \<and> memory_type = TRITONSERVER_MEMORY_GPU then
        (let dev = ucast memory_type_id;
             err = cudaSetDevice e dev;
             w1 = emit (Call_cudaSetDevice dev) w;
             err2 = (if err = cudaSuccess then cudaFree e buf else err);
             w2 = (if err = cudaSuccess then emit (Call_cudaFree buf) w1 else w1)
         in if err2 \<noteq> cudaSuccess then
              emit (Call_cerr (''error: failed to cudaFree '' @ ptr_string e buf @ '': '' @
                               cudaGetErrorString e err2 @ [CHR 0x0A])) w2
            else w2)
      else
        emit (Call_cerr (''error: unexpected buffer allocated in CUDA managed memory'' @
                         [CHR 0x0A])) w)"

definition ResponseRelease ::
  "bool \<Rightarrow> env \<Rightarrow> ptr \<Rightarrow> ptr \<Rightarrow> ptr \<Rightarrow> size_t \<Rightarrow> TRITONSERVER_MemoryType \<Rightarrow> int64_t \<Rightarrow> world \<Rightarrow>
   fault + (TRITONSERVER_Error option \<times> world)" where
  "ResponseRelease TRITON_ENABLE_GPU e allocator buf buf_userp byte_size memory_type
       memory_type_id w =
     (let name = (if buf_userp \<noteq> nullptr then buf_userp else fst (new_string ''<unknown>'' w));
          w1 = (if buf_userp \<noteq> nullptr then w else snd (new_string ''<unknown>'' w));
          buffer_str = ptr_string e buf
      in case deref_string w1 name of
           None \<Rightarrow> Inl Invalid_pointer
         | Some name_str \<Rightarrow>
             (let w2 = LOG_MESSAGE e TRITONSERVER_LOG_VERBOSE
                         (''Releasing buffer '' @ buffer_str @ '' of size '' @
                          to_string byte_size @ '' in '' @
                          TRITONSERVER_MemoryTypeString e memory_type @
                          '' for result '' @ [CHR 0x27] @ name_str) w1;
                  w3 = ResponseRelease_switch TRITON_ENABLE_GPU e buf memory_type memory_type_id w2;
                  w4 = delete_string name w3
              in Inr (None, w4)))"

section \<open>The completion handler\<close>

text \<open>
  \<open>userp\<close> is the address of a \<open>std::promise\<close> on the heap. A promise object is live
  until \<open>delete\<close>; its shared state, which the waiter's future reads, holds the value
  once \<open>set_value\<close> has stored it and outlives the promise object. \<open>fulfilments\<close>
  lists every store into a shared state: the promise's address and the response.
\<close>

record promise =
  live :: bool
  shared_state :: "ptr option"

record rendezvous =
  promises :: "ptr \<Rightarrow> promise option"
  fulfilments :: "(ptr \<times> ptr) list"

definition InferResponseComplete :: "ptr \<Rightarrow> 32 word \<Rightarrow> ptr \<Rightarrow> rendezvous \<Rightarrow> fault + rendezvous" where
  "InferResponseComplete response flags userp s =
     (if response \<noteq> nullptr then
        (case promises s userp of
           None \<Rightarrow> Inl Invalid_pointer
         | Some p \<Rightarrow>
             if \<not> live p then Inl Invalid_pointer
             else if shared_state p \<noteq> None then Inl Future_error
             else Inr (s\<lparr>promises := (promises s)(userp \<mapsto> \<lparr>live = False, shared_state = Some response\<rparr>),
                         fulfilments := fulfilments s @ [(userp, response)]\<rparr>))
      else Inr s)"

text \<open>
  The engine firing the handler several times for one request (one \<open>userp\<close>): the run
  stops at the first fault and returns the state reached.
\<close>

fun fire_all :: "ptr \<Rightarrow> (ptr \<times> 32 word) list \<Rightarrow> rendezvous \<Rightarrow> fault option \<times> rendezvous" where
  "fire_all userp [] s = (None, s)"
| "fire_all userp ((response, flags) # cs) s =
     (case InferResponseComplete response flags userp s of
        Inl f \<Rightarrow> (Some f, s)
      | Inr s' \<Rightarrow> fire_all userp cs s')"

section \<open>Vocabulary of the statements\<close>

text \<open>The three components of a result of \<open>ResponseAlloc\<close>.\<close>

definition returned :: "TRITONSERVER_Error option \<times> alloc_out \<times> world \<Rightarrow> TRITONSERVER_Error option" where
  "returned r = fst r"

definition outs :: "TRITONSERVER_Error option \<times> alloc_out \<times> world \<Rightarrow> alloc_out" where
  "outs r = fst (snd r)"

definition after :: "TRITONSERVER_Error option \<times> alloc_out \<times> world \<Rightarrow> world" where
  "after r = snd (snd r)"

text \<open>The calls made between two worlds, and the kinds of call the claims speak of.\<close>

definition new_calls :: "world \<Rightarrow> world \<Rightarrow> call list" where
  "new_calls w w' = drop (length (calls w)) (calls w')"

fun is_allocator_call :: "call \<Rightarrow> bool" where
  "is_allocator_call (Call_malloc n) = True"
| "is_allocator_call (Call_cudaHostAlloc n) = True"
| "is_allocator_call (Call_cudaMalloc n) = True"
| "is_allocator_call c = False"

fun is_delete :: "call \<Rightarrow> bool" where
  "is_delete (Call_delete_string p) = True"
| "is_delete c = False"

fun is_cerr :: "call \<Rightarrow> bool" where
  "is_cerr (Call_cerr m) = True"
| "is_cerr c = False"

text \<open>
  The error codes of \<open>cudaSetDevice\<close> that the guard of \<open>ResponseAlloc\<close> lets pass:
  the negation of its condition
  \<open>(err != cudaSuccess) && (err != cudaErrorNoDevice) && (err != cudaErrorInsufficientDriver)\<close>.
\<close>

definition tolerated :: "cudaError_t \<Rightarrow> bool" where
  "tolerated err = (err = cudaSuccess \<or> err = cudaErrorNoDevice \<or> err = cudaErrorInsufficientDriver)"

text \<open>
  An error return that left nothing behind: the out-parameters \<open>buffer\<close> and
  \<open>buffer_userp\<close> hold what they held before, and no tag object was made.
\<close>

definition failed_clean ::
  "alloc_out \<Rightarrow> world \<Rightarrow> TRITONSERVER_Error option \<times> alloc_out \<times> world \<Rightarrow> bool" where
  "failed_clean out w r =
     (returned r \<noteq> None \<and> buffer (outs r) = buffer out \<and>
      buffer_userp (outs r) = buffer_userp out \<and> strings (after r) = strings w)"

text \<open>
  A successful return that hands out the pointer \<open>p\<close> and a tag: a non-null address of
  a live string holding the tensor name.
\<close>

definition granted ::
  "ptr \<Rightarrow> string \<Rightarrow> TRITONSERVER_Error option \<times> alloc_out \<times> world \<Rightarrow> bool" where
  "granted p tensor_name r =
     (returned r = None \<and> buffer (outs r) = p \<and> buffer (outs r) \<noteq> nullptr \<and>
      buffer_userp (outs r) \<noteq> nullptr \<and>
      deref_string (after r) (buffer_userp (outs r)) = Some tensor_name)"

text \<open>Environments and initial values for running the callbacks on concrete inputs.\<close>

definition const_env ::
  "cudaError_t \<Rightarrow> cudaError_t \<times> ptr \<Rightarrow> cudaError_t \<times> ptr \<Rightarrow> ptr \<Rightarrow> cudaError_t \<Rightarrow> env" where
  "const_env set_device host_alloc device_alloc host_ptr free_result =
     \<lparr>cudaSetDevice = (\<lambda>d. set_device),
      cudaHostAlloc = (\<lambda>n. host_alloc),
      cudaMalloc = (\<lambda>n. device_alloc),
      malloc = (\<lambda>n. host_ptr),
      cudaFreeHost = (\<lambda>p. free_result),
      cudaFree = (\<lambda>p. free_result),
      cudaGetErrorString = (\<lambda>err. ''cuda error''),
      TRITONSERVER_MemoryTypeString = (\<lambda>m. ''memory''),
      TRITONSERVER_ErrorCodeString = (\<lambda>err. ''Internal''),
      TRITONSERVER_LogMessage = (\<lambda>level m. None),
      ptr_string = (\<lambda>p. ''0x'' @ to_string p)\<rparr>"

text \<open>
  \<open>env_ok\<close>: every call succeeds. \<open>env_no_device\<close>: no CUDA device, every CUDA call
  returns \<open>cudaErrorNoDevice\<close>. \<open>env_lenient\<close>: selecting the device fails with
  \<open>cudaErrorNoDevice\<close> and the allocation calls succeed. \<open>env_bad_device\<close>: selecting
  the device fails with another code. \<open>env_exhausted\<close>: every allocation call fails.
  \<open>env_free_fails\<close>: the CUDA deallocation calls fail.
\<close>

definition env_ok :: env where
  "env_ok = const_env cudaSuccess (cudaSuccess, 4096) (cudaSuccess, 8192) 1024 cudaSuccess"

definition env_no_device :: env where
  "env_no_device =
     const_env cudaErrorNoDevice (cudaErrorNoDevice, 0) (cudaErrorNoDevice, 0) 1024 cudaErrorNoDevice"

definition env_lenient :: env where
  "env_lenient = const_env cudaErrorNoDevice (cudaSuccess, 4096) (cudaSuccess, 8192) 1024 cudaSuccess"

definition env_bad_device :: env where
  "env_bad_device =
     const_env (cudaError_other 101) (cudaSuccess, 4096) (cudaSuccess, 8192) 1024 cudaSuccess"

definition env_exhausted :: env where
  "env_exhausted = const_env cudaSuccess (cudaError_other 2, 0) (cudaError_other 2, 0) 0 cudaSuccess"

definition env_free_fails :: env where
  "env_free_fails =
     const_env cudaSuccess (cudaSuccess, 4096) (cudaSuccess, 8192) 1024 (cudaError_other 1)"

definition out0 :: alloc_out where
  "out0 = \<lparr>buffer = 77, buffer_userp = 88,
           actual_memory_type = TRITONSERVER_MEMORY_other 5, actual_memory_type_id = 9\<rparr>"

definition w0 :: world where
  "w0 = \<lparr>strings = [], calls = []\<rparr>"

definition w1 :: world where
  "w1 = \<lparr>strings = [Some ''OUTPUT0'', None, Some ''OUTPUT1''], calls = []\<rparr>"

definition s0 :: rendezvous where
  "s0 = \<lparr>promises = Map.empty(500 \<mapsto> \<lparr>live = True, shared_state = None\<rparr>), fulfilments = []\<rparr>"

text \<open>
  The calls \<open>LOG_MESSAGE\<close> makes: the message, and the report of a failure to log it.
\<close>

definition log_calls :: "env \<Rightarrow> TRITONSERVER_LogLevel \<Rightarrow> string \<Rightarrow> call list" where
  "log_calls e level m =
     Call_LogMessage level m #
     (case TRITONSERVER_LogMessage e level m of
        None \<Rightarrow> []
      | Some lie_err \<Rightarrow>
          [Call_LogMessage TRITONSERVER_LOG_ERROR
             (''failed to log message: '' @ '': '' @ TRITONSERVER_ErrorCodeString e lie_err @
              '' - '' @ TRITONSERVER_ErrorMessage lie_err)])"

text \<open>
  The string object \<open>ResponseRelease\<close> calls \<open>name\<close>: the tag passed in, or the
  placeholder it makes at the next free address when the tag is null.
\<close>

definition name_of :: "world \<Rightarrow> ptr \<Rightarrow> ptr" where
  "name_of w buf_userp = (if buf_userp \<noteq> nullptr then buf_userp else Suc (length (strings w)))"

text \<open>
  A memory type with no case in the \<open>switch\<close> of \<open>ResponseRelease\<close>, and a native
  deallocation that fails: the device cannot be selected, or the CUDA call that frees
  the buffer returns an error.
\<close>

definition unexpected :: "bool \<Rightarrow> TRITONSERVER_MemoryType \<Rightarrow> bool" where
  "unexpected TRITON_ENABLE_GPU mt =
     (mt \<noteq> TRITONSERVER_MEMORY_CPU \<and>
      (if TRITON_ENABLE_GPU
       then mt \<noteq> TRITONSERVER_MEMORY_CPU_PINNED \<and> mt \<noteq> TRITONSERVER_MEMORY_GPU else True))"

definition dealloc_failed ::
  "bool \<Rightarrow> env \<Rightarrow> ptr \<Rightarrow> TRITONSERVER_MemoryType \<Rightarrow> int64_t \<Rightarrow> bool" where
  "dealloc_failed TRITON_ENABLE_GPU e buf mt mid =
     (TRITON_ENABLE_GPU \<and>
      (mt = TRITONSERVER_MEMORY_CPU_PINNED \<and>
         (cudaSetDevice e (ucast mid) \<noteq> cudaSuccess \<or> cudaFreeHost e buf \<noteq> cudaSuccess) \<or>
       mt = TRITONSERVER_MEMORY_GPU \<and>
         (cudaSetDevice e (ucast mid) \<noteq> cudaSuccess \<or> cudaFree e buf \<noteq> cudaSuccess)))"

text \<open>The calls the \<open>switch\<close> of \<open>ResponseRelease\<close> makes.\<close>

definition release_calls ::
  "bool \<Rightarrow> env \<Rightarrow> ptr \<Rightarrow> TRITONSERVER_MemoryType \<Rightarrow> int64_t \<Rightarrow> call list" where
  "release_calls TRITON_ENABLE_GPU e buf mt mid =
     calls (ResponseRelease_switch TRITON_ENABLE_GPU e buf mt mid \<lparr>strings = [], calls = []\<rparr>)"

text \<open>A promise that can no longer be fulfilled through \<open>userp\<close>.\<close>

definition spent :: "rendezvous \<Rightarrow> ptr \<Rightarrow> bool" where
  "spent s userp =
     (case promises s userp of None \<Rightarrow> True | Some p \<Rightarrow> \<not> live p \<or> shared_state p \<noteq> None)"

section \<open>Properties of the translators\<close>

lemmas wrapper_enums =
  MODEL_CONTROL_NONE_def MODEL_CONTROL_POLL_def MODEL_CONTROL_EXPLICIT_def
  CPU_def CPU_PINNED_def GPU_def LOG_DEFAULT_def LOG_ISO8601_def

lemmas example_envs =
  env_ok_def env_no_device_def env_lenient_def env_bad_device_def env_exhausted_def
  env_free_fails_def const_env_def

lemma IsOk_Success: "IsOk Success"
  by (simp add: IsOk_def Success_def Error_of_def)

text \<open>
  Claim C6. For each of the wrapper's memory types \<open>CPU\<close>, \<open>CPU_PINNED\<close> and \<open>GPU\<close>,
  \<open>ToTritonMemoryType\<close> succeeds, \<open>ToMemoryType\<close> succeeds on the native value it
  wrote, and the value \<open>ToMemoryType\<close> writes is the original one, whatever the
  out-parameters held before.
\<close>

theorem memory_type_roundtrip:
  assumes "m = CPU \<or> m = CPU_PINNED \<or> m = GPU"
  shows "IsOk (fst (ToTritonMemoryType old_native m)) \<and>
         IsOk (fst (ToMemoryType old_wrapper (snd (ToTritonMemoryType old_native m)))) \<and>
         snd (ToMemoryType old_wrapper (snd (ToTritonMemoryType old_native m))) = m"
  using assms by (auto simp: ToTritonMemoryType_def wrapper_enums IsOk_Success)

theorem memory_type_roundtrip_witness:
  "(GPU = CPU \<or> GPU = CPU_PINNED \<or> GPU = GPU) \<and>
   IsOk (fst (ToTritonMemoryType (TRITONSERVER_MEMORY_other 9) GPU)) \<and>
   IsOk (fst (ToMemoryType CPU (snd (ToTritonMemoryType (TRITONSERVER_MEMORY_other 9) GPU)))) \<and>
   snd (ToMemoryType CPU (snd (ToTritonMemoryType (TRITONSERVER_MEMORY_other 9) GPU))) = GPU"
  using memory_type_roundtrip [of GPU "TRITONSERVER_MEMORY_other 9" CPU] by simp

text \<open>
  Claim C7. On a value that is none of the enumerators, each of
  \<open>ToTritonModelControlMode\<close>, \<open>ToTritonLogFormat\<close>, \<open>ToTritonMemoryType\<close> and
  \<open>ToMemoryType\<close> returns an \<open>Error\<close> for which \<open>IsOk\<close> is false and whose message is
  not empty: the text of the \<open>default\<close> branch. The value returned is never
  \<open>Error::Success\<close>, so no output stands for "invalid".
\<close>

theorem unrecognized_is_error:
  "(mode \<noteq> MODEL_CONTROL_NONE \<and> mode \<noteq> MODEL_CONTROL_POLL \<and> mode \<noteq> MODEL_CONTROL_EXPLICIT \<longrightarrow>
      \<not> IsOk (fst (ToTritonModelControlMode old_mode mode)) \<and>
      Message (fst (ToTritonModelControlMode old_mode mode)) \<noteq> [] \<and>
      Message (fst (ToTritonModelControlMode old_mode mode)) = ''unsupported model control mode.'') \<and>
   (format \<noteq> LOG_DEFAULT \<and> format \<noteq> LOG_ISO8601 \<longrightarrow>
      \<not> IsOk (fst (ToTritonLogFormat old_format format)) \<and>
      Message (fst (ToTritonLogFormat old_format format)) \<noteq> [] \<and>
      Message (fst (ToTritonLogFormat old_format format)) = ''unsupported log format.'') \<and>
   (mem_type \<noteq> CPU \<and> mem_type \<noteq> CPU_PINNED \<and> mem_type \<noteq> GPU \<longrightarrow>
      \<not> IsOk (fst (ToTritonMemoryType old_native mem_type)) \<and>
      Message (fst (ToTritonMemoryType old_native mem_type)) \<noteq> [] \<and>
      Message (fst (ToTritonMemoryType old_native mem_type)) = ''unsupported memory type.'') \<and>
   (native \<noteq> TRITONSERVER_MEMORY_CPU \<and> native \<noteq> TRITONSERVER_MEMORY_CPU_PINNED \<and>
    native \<noteq> TRITONSERVER_MEMORY_GPU \<longrightarrow>
      \<not> IsOk (fst (ToMemoryType old_wrapper native)) \<and>
      Message (fst (ToMemoryType old_wrapper native)) \<noteq> [] \<and>
      Message (fst (ToMemoryType old_wrapper native)) = ''unsupported memory type.'')"
  by (cases native)
     (simp_all add: ToTritonModelControlMode_def ToTritonLogFormat_def ToTritonMemoryType_def
       IsOk_def Message_def Error_of_def)

theorem unrecognized_is_error_witness:
  "(3 \<noteq> MODEL_CONTROL_NONE \<and> 3 \<noteq> MODEL_CONTROL_POLL \<and> 3 \<noteq> MODEL_CONTROL_EXPLICIT) \<and>
   \<not> IsOk (fst (ToTritonModelControlMode TRITONSERVER_MODEL_CONTROL_POLL 3)) \<and>
   Message (fst (ToTritonModelControlMode TRITONSERVER_MODEL_CONTROL_POLL 3)) =
     ''unsupported model control mode.'' \<and>
   (- 1 \<noteq> LOG_DEFAULT \<and> - 1 \<noteq> LOG_ISO8601) \<and>
   \<not> IsOk (fst (ToTritonLogFormat TRITONSERVER_LOG_DEFAULT (- 1))) \<and>
   Message (fst (ToTritonLogFormat TRITONSERVER_LOG_DEFAULT (- 1))) = ''unsupported log format.'' \<and>
   (7 \<noteq> CPU \<and> 7 \<noteq> CPU_PINNED \<and> 7 \<noteq> GPU) \<and>
   \<not> IsOk (fst (ToTritonMemoryType TRITONSERVER_MEMORY_GPU 7)) \<and>
   Message (fst (ToTritonMemoryType TRITONSERVER_MEMORY_GPU 7)) = ''unsupported memory type.'' \<and>
   \<not> IsOk (fst (ToMemoryType GPU (TRITONSERVER_MEMORY_other 3))) \<and>
   Message (fst (ToMemoryType GPU (TRITONSERVER_MEMORY_other 3))) = ''unsupported memory type.''"
  using unrecognized_is_error [of 3 TRITONSERVER_MODEL_CONTROL_POLL "- 1" TRITONSERVER_LOG_DEFAULT
      7 TRITONSERVER_MEMORY_GPU "TRITONSERVER_MEMORY_other 3" GPU]
  by (simp add: wrapper_enums)

text \<open>
  Claim C9. On a value that is none of the enumerators, when one of the four
  translators returns an error, the out-parameter's target holds after the call what
  it held before.
\<close>

theorem error_leaves_output_unwritten:
  "(mode \<noteq> MODEL_CONTROL_NONE \<and> mode \<noteq> MODEL_CONTROL_POLL \<and> mode \<noteq> MODEL_CONTROL_EXPLICIT \<and>
    \<not> IsOk (fst (ToTritonModelControlMode old_mode mode)) \<longrightarrow>
      snd (ToTritonModelControlMode old_mode mode) = old_mode) \<and>
   (format \<noteq> LOG_DEFAULT \<and> format \<noteq> LOG_ISO8601 \<and>
    \<not> IsOk (fst (ToTritonLogFormat old_format format)) \<longrightarrow>
      snd (ToTritonLogFormat old_format format) = old_format) \<and>
   (mem_type \<noteq> CPU \<and> mem_type \<noteq> CPU_PINNED \<and> mem_type \<noteq> GPU \<and>
    \<not> IsOk (fst (ToTritonMemoryType old_native mem_type)) \<longrightarrow>
      snd (ToTritonMemoryType old_native mem_type) = old_native) \<and>
   (native \<noteq> TRITONSERVER_MEMORY_CPU \<and> native \<noteq> TRITONSERVER_MEMORY_CPU_PINNED \<and>
    native \<noteq> TRITONSERVER_MEMORY_GPU \<and> \<not> IsOk (fst (ToMemoryType old_wrapper native)) \<longrightarrow>
      snd (ToMemoryType old_wrapper native) = old_wrapper)"
  by (cases native)
     (simp_all add: ToTritonModelControlMode_def ToTritonLogFormat_def ToTritonMemoryType_def)

theorem error_leaves_output_unwritten_witness:
  "(3 \<noteq> MODEL_CONTROL_NONE \<and> 3 \<noteq> MODEL_CONTROL_POLL \<and> 3 \<noteq> MODEL_CONTROL_EXPLICIT) \<and>
   \<not> IsOk (fst (ToTritonModelControlMode TRITONSERVER_MODEL_CONTROL_POLL 3)) \<and>
   snd (ToTritonModelControlMode TRITONSERVER_MODEL_CONTROL_POLL 3) = TRITONSERVER_MODEL_CONTROL_POLL \<and>
   (- 1 \<noteq> LOG_DEFAULT \<and> - 1 \<noteq> LOG_ISO8601) \<and>
   \<not> IsOk (fst (ToTritonLogFormat (TRITONSERVER_LOG_other 4) (- 1))) \<and>
   snd (ToTritonLogFormat (TRITONSERVER_LOG_other 4) (- 1)) = TRITONSERVER_LOG_other 4 \<and>
   (7 \<noteq> CPU \<and> 7 \<noteq> CPU_PINNED \<and> 7 \<noteq> GPU) \<and>
   \<not> IsOk (fst (ToTritonMemoryType TRITONSERVER_MEMORY_GPU 7)) \<and>
   snd (ToTritonMemoryType TRITONSERVER_MEMORY_GPU 7) = TRITONSERVER_MEMORY_GPU \<and>
   \<not> IsOk (fst (ToMemoryType GPU (TRITONSERVER_MEMORY_other 3))) \<and>
   snd (ToMemoryType GPU (TRITONSERVER_MEMORY_other 3)) = GPU"
  using error_leaves_output_unwritten [of 3 TRITONSERVER_MODEL_CONTROL_POLL "- 1"
      "TRITONSERVER_LOG_other 4" 7 TRITONSERVER_MEMORY_GPU "TRITONSERVER_MEMORY_other 3" GPU]
  by (simp add: wrapper_enums ToTritonModelControlMode_def ToTritonLogFormat_def
      ToTritonMemoryType_def IsOk_def Error_of_def)

text \<open>
  Claim C5, as stated, fails. Its example pairs \<open>BOOL\<close> with \<open>TYPE_BOOL\<close>: the
  prefixed spelling is \<open>TYPE_\<close> followed by the short one. For \<open>BYTES\<close> that is
  \<open>TYPE_BYTES\<close>, which the source does not compare with: the short spelling gives
  \<open>TRITONSERVER_TYPE_BYTES\<close> and the prefixed one gives \<open>TRITONSERVER_TYPE_INVALID\<close>.
\<close>

theorem data_type_parsing_counterexample:
  "snd (ToTritonDataType TRITONSERVER_TYPE_BOOL ''BYTES'') = TRITONSERVER_TYPE_BYTES \<and>
   snd (ToTritonDataType TRITONSERVER_TYPE_BOOL (''TYPE_'' @ ''BYTES'')) = TRITONSERVER_TYPE_INVALID \<and>
   snd (ToTritonDataType TRITONSERVER_TYPE_BOOL ''BYTES'') \<noteq>
     snd (ToTritonDataType TRITONSERVER_TYPE_BOOL (''TYPE_'' @ ''BYTES''))"
  by (simp add: ToTritonDataType_def)

text \<open>
  Claim C5, amended. Each of the fourteen supported types has two spellings: a short
  one, and a prefixed one that is \<open>TYPE_\<close> followed by the short one for every type but
  \<open>BYTES\<close>, whose prefixed spelling is \<open>TYPE_STRING\<close>. Both spellings of a type give
  that type, which is not the invalid one (\<open>BOOL\<close> and \<open>TYPE_BOOL\<close> both give
  \<open>TRITONSERVER_TYPE_BOOL\<close>); a string that is none of these spellings, such as
  \<open>TYPE_BYTES\<close> or a spelling in another case, gives \<open>TRITONSERVER_TYPE_INVALID\<close>; and
  for every string the value returned is \<open>Error::Success\<close>.
\<close>

theorem data_type_parsing:
  "list_all (\<lambda>(short, prefixed, t).
        t \<noteq> TRITONSERVER_TYPE_INVALID \<and>
        ToTritonDataType old short = (Success, t) \<and>
        ToTritonDataType old prefixed = (Success, t)) spellings \<and>
   list_all (\<lambda>(short, prefixed, t).
        prefixed = (if short = ''BYTES'' then ''TYPE_STRING'' else ''TYPE_'' @ short)) spellings \<and>
   \<not> recognized ''TYPE_BYTES'' \<and>
   map (snd \<circ> snd) spellings =
     [TRITONSERVER_TYPE_BOOL, TRITONSERVER_TYPE_UINT8, TRITONSERVER_TYPE_UINT16,
      TRITONSERVER_TYPE_UINT32, TRITONSERVER_TYPE_UINT64, TRITONSERVER_TYPE_INT8,
      TRITONSERVER_TYPE_INT16, TRITONSERVER_TYPE_INT32, TRITONSERVER_TYPE_INT64,
      TRITONSERVER_TYPE_FP16, TRITONSERVER_TYPE_FP32, TRITONSERVER_TYPE_FP64,
      TRITONSERVER_TYPE_BYTES, TRITONSERVER_TYPE_BF16] \<and>
   ToTritonDataType old ''BOOL'' = (Success, TRITONSERVER_TYPE_BOOL) \<and>
   ToTritonDataType old ''TYPE_BOOL'' = (Success, TRITONSERVER_TYPE_BOOL) \<and>
   (\<not> recognized s \<longrightarrow> ToTritonDataType old s = (Success, TRITONSERVER_TYPE_INVALID)) \<and>
   fst (ToTritonDataType old s) = Success \<and>
   IsOk (fst (ToTritonDataType old s))"
proof -
  have pairs: "list_all (\<lambda>(short, prefixed, t).
        t \<noteq> TRITONSERVER_TYPE_INVALID \<and>
        ToTritonDataType old short = (Success, t) \<and>
        ToTritonDataType old prefixed = (Success, t)) spellings"
    by (simp add: spellings_def ToTritonDataType_def)
  have shape: "list_all (\<lambda>(short, prefixed, t).
        prefixed = (if short = ''BYTES'' then ''TYPE_STRING'' else ''TYPE_'' @ short)) spellings"
    by (simp add: spellings_def)
  have bytes: "\<not> recognized ''TYPE_BYTES''"
    by (simp add: recognized_def spellings_def)
  have types: "map (snd \<circ> snd) spellings =
     [TRITONSERVER_TYPE_BOOL, TRITONSERVER_TYPE_UINT8, TRITONSERVER_TYPE_UINT16,
      TRITONSERVER_TYPE_UINT32, TRITONSERVER_TYPE_UINT64, TRITONSERVER_TYPE_INT8,
      TRITONSERVER_TYPE_INT16, TRITONSERVER_TYPE_INT32, TRITONSERVER_TYPE_INT64,
      TRITONSERVER_TYPE_FP16, TRITONSERVER_TYPE_FP32, TRITONSERVER_TYPE_FP64,
      TRITONSERVER_TYPE_BYTES, TRITONSERVER_TYPE_BF16]"
    by (simp add: spellings_def)
  have bool: "ToTritonDataType old ''BOOL'' = (Success, TRITONSERVER_TYPE_BOOL)"
    "ToTritonDataType old ''TYPE_BOOL'' = (Success, TRITONSERVER_TYPE_BOOL)"
    by (simp_all add: ToTritonDataType_def)
  have other: "\<not> recognized s \<longrightarrow> ToTritonDataType old s = (Success, TRITONSERVER_TYPE_INVALID)"
    by (simp add: recognized_def spellings_def ToTritonDataType_def)
  have ok: "fst (ToTritonDataType old s) = Success"
    by (simp add: ToTritonDataType_def)
  from pairs shape bytes types bool other ok show ?thesis
    by (simp only: IsOk_Success simp_thms)
qed

theorem data_type_parsing_witness:
  "\<not> recognized ''bool'' \<and>
   ToTritonDataType TRITONSERVER_TYPE_BOOL ''bool'' = (Success, TRITONSERVER_TYPE_INVALID) \<and>
   IsOk (fst (ToTritonDataType TRITONSERVER_TYPE_BOOL ''bool'')) \<and>
   \<not> recognized ''TYPE_BYTES'' \<and>
   ToTritonDataType TRITONSERVER_TYPE_BOOL ''TYPE_BYTES'' = (Success, TRITONSERVER_TYPE_INVALID) \<and>
   ToTritonDataType TRITONSERVER_TYPE_BOOL ''BYTES'' = (Success, TRITONSERVER_TYPE_BYTES) \<and>
   ToTritonDataType TRITONSERVER_TYPE_BOOL ''TYPE_STRING'' = (Success, TRITONSERVER_TYPE_BYTES)"
proof -
  have unrec: "\<not> recognized ''bool''"
    by (simp add: recognized_def spellings_def)
  have both: "ToTritonDataType TRITONSERVER_TYPE_BOOL ''BYTES'' = (Success, TRITONSERVER_TYPE_BYTES)"
    "ToTritonDataType TRITONSERVER_TYPE_BOOL ''TYPE_STRING'' = (Success, TRITONSERVER_TYPE_BYTES)"
    using data_type_parsing [of TRITONSERVER_TYPE_BOOL "''bool''"]
    by (simp_all add: spellings_def)
  from unrec data_type_parsing [of TRITONSERVER_TYPE_BOOL "''bool''"]
    data_type_parsing [of TRITONSERVER_TYPE_BOOL "''TYPE_BYTES''"] both
  show ?thesis
    by (simp add: IsOk_Success)
qed

text \<open>
  Two further facts about the spellings: every prefixed spelling but one is \<open>TYPE_\<close> followed by
  the short spelling, and \<open>TYPE_BYTES\<close> is not a spelling of the source.
\<close>

lemma prefixed_spellings:
  "list_all (\<lambda>(short, prefixed, t). short \<noteq> ''BYTES'' \<longrightarrow> prefixed = ''TYPE_'' @ short) spellings"
  by (simp add: spellings_def)

lemma TYPE_BYTES_is_invalid:
  "ToTritonDataType old ''TYPE_BYTES'' = (Success, TRITONSERVER_TYPE_INVALID)"
  by (simp add: ToTritonDataType_def)

section \<open>Properties of ResponseAlloc\<close>

lemma calls_emit: "calls (emit c w) = calls w @ [c]"
  by (simp add: emit_def)

lemma strings_emit: "strings (emit c w) = strings w"
  by (simp add: emit_def)

lemma calls_LOG_MESSAGE: "calls (LOG_MESSAGE e level m w) = calls w @ log_calls e level m"
  by (simp add: LOG_MESSAGE_def LOG_IF_ERROR_def log_calls_def calls_emit split: option.split)

lemma strings_LOG_MESSAGE: "strings (LOG_MESSAGE e level m w) = strings w"
  by (simp add: LOG_MESSAGE_def LOG_IF_ERROR_def strings_emit split: option.split)

lemma log_calls_kinds:
  "filter is_allocator_call (log_calls e level m) = []"
  "filter is_delete (log_calls e level m) = []"
  "filter is_cerr (log_calls e level m) = []"
  by (simp_all add: log_calls_def split: option.split)

lemma deref_new_string:
  "deref_string (snd (new_string s w)) (fst (new_string s w)) = Some s"
  "fst (new_string s w) \<noteq> nullptr"
  by (simp_all add: new_string_def deref_string_def nullptr_def Let_def strings_emit)

lemma fst_new_string: "fst (new_string s w) = Suc (length (strings w))"
  by (simp add: new_string_def Let_def)

lemma deref_new_string_Suc:
  "deref_string (snd (new_string s w)) (Suc (length (strings w))) = Some s"
  by (simp add: new_string_def deref_string_def nullptr_def Let_def strings_emit)

lemma calls_new_string:
  "calls (snd (new_string s w)) = calls w @ [Call_new_string (Suc (length (strings w))) s]"
  by (simp add: new_string_def Let_def calls_emit)

lemma deref_LOG_MESSAGE: "deref_string (LOG_MESSAGE e level m w) p = deref_string w p"
  by (simp add: deref_string_def strings_LOG_MESSAGE)

text \<open>The result of \<open>ResponseAlloc\<close> on each path of a request of non-zero size.\<close>

lemma ResponseAlloc_hard_failure:
  assumes "byte_size \<noteq> 0" "gpu"
    "mt = TRITONSERVER_MEMORY_CPU_PINNED \<or> mt = TRITONSERVER_MEMORY_GPU"
    "\<not> tolerated (cudaSetDevice e (ucast mid))"
  shows "ResponseAlloc gpu e allocator tensor_name byte_size mt mid userp out w =
    (Some (TRITONSERVER_ErrorNew TRITONSERVER_ERROR_INTERNAL
       (''unable to recover current CUDA device: '' @
        cudaGetErrorString e (cudaSetDevice e (ucast mid)))),
     out\<lparr>actual_memory_type := mt, actual_memory_type_id := mid\<rparr>,
     emit (Call_cudaSetDevice (ucast mid)) w)"
  using assms by (auto simp: ResponseAlloc_def ResponseAlloc_switch_def Let_def tolerated_def)

lemma ResponseAlloc_cudaHostAlloc:
  assumes "byte_size \<noteq> 0" "gpu" "tolerated (cudaSetDevice e (ucast mid))"
  shows "ResponseAlloc gpu e allocator tensor_name byte_size TRITONSERVER_MEMORY_CPU_PINNED mid
           userp out w =
    (if fst (cudaHostAlloc e byte_size) \<noteq> cudaSuccess then
       (Some (TRITONSERVER_ErrorNew TRITONSERVER_ERROR_INTERNAL
          (''cudaHostAlloc failed: '' @ cudaGetErrorString e (fst (cudaHostAlloc e byte_size)))),
        out\<lparr>actual_memory_type := TRITONSERVER_MEMORY_CPU_PINNED, actual_memory_type_id := mid\<rparr>,
        emit (Call_cudaHostAlloc byte_size) (emit (Call_cudaSetDevice (ucast mid)) w))
     else if snd (cudaHostAlloc e byte_size) \<noteq> nullptr then
       (None,
        out\<lparr>actual_memory_type := TRITONSERVER_MEMORY_CPU_PINNED, actual_memory_type_id := mid,
            buffer := snd (cudaHostAlloc e byte_size),
            buffer_userp := fst (new_string tensor_name
               (emit (Call_cudaHostAlloc byte_size) (emit (Call_cudaSetDevice (ucast mid)) w)))\<rparr>,
        LOG_MESSAGE e TRITONSERVER_LOG_VERBOSE
          (''allocated '' @ to_string byte_size @ '' bytes in '' @
           TRITONSERVER_MemoryTypeString e TRITONSERVER_MEMORY_CPU_PINNED @
           '' for result tensor '' @ tensor_name)
          (snd (new_string tensor_name
               (emit (Call_cudaHostAlloc byte_size) (emit (Call_cudaSetDevice (ucast mid)) w)))))
     else
       (None,
        out\<lparr>actual_memory_type := TRITONSERVER_MEMORY_CPU_PINNED, actual_memory_type_id := mid\<rparr>,
        emit (Call_cudaHostAlloc byte_size) (emit (Call_cudaSetDevice (ucast mid)) w)))"
  using assms by (auto simp: ResponseAlloc_def ResponseAlloc_switch_def Let_def tolerated_def)

lemma ResponseAlloc_cudaMalloc:
  assumes "byte_size \<noteq> 0" "gpu" "tolerated (cudaSetDevice e (ucast mid))"
  shows "ResponseAlloc gpu e allocator tensor_name byte_size TRITONSERVER_MEMORY_GPU mid
           userp out w =
    (if fst (cudaMalloc e byte_size) \<noteq> cudaSuccess then
       (Some (TRITONSERVER_ErrorNew TRITONSERVER_ERROR_INTERNAL
          (''cudaMalloc failed: '' @ cudaGetErrorString e (fst (cudaMalloc e byte_size)))),
        out\<lparr>actual_memory_type := TRITONSERVER_MEMORY_GPU, actual_memory_type_id := mid\<rparr>,
        emit (Call_cudaMalloc byte_size) (emit (Call_cudaSetDevice (ucast mid)) w))
     else if snd (cudaMalloc e byte_size) \<noteq> nullptr then
       (None,
        out\<lparr>actual_memory_type := TRITONSERVER_MEMORY_GPU, actual_memory_type_id := mid,
            buffer := snd (cudaMalloc e byte_size),
            buffer_userp := fst (new_string tensor_name
               (emit (Call_cudaMalloc byte_size) (emit (Call_cudaSetDevice (ucast mid)) w)))\<rparr>,
        LOG_MESSAGE e TRITONSERVER_LOG_VERBOSE
          (''allocated '' @ to_string byte_size @ '' bytes in '' @
           TRITONSERVER_MemoryTypeString e TRITONSERVER_MEMORY_GPU @
           '' for result tensor '' @ tensor_name)
          (snd (new_string tensor_name
               (emit (Call_cudaMalloc byte_size) (emit (Call_cudaSetDevice (ucast mid)) w)))))
     else
       (None,
        out\<lparr>actual_memory_type := TRITONSERVER_MEMORY_GPU, actual_memory_type_id := mid\<rparr>,
        emit (Call_cudaMalloc byte_size) (emit (Call_cudaSetDevice (ucast mid)) w)))"
  using assms by (auto simp: ResponseAlloc_def ResponseAlloc_switch_def Let_def tolerated_def)

lemma ResponseAlloc_malloc:
  assumes "byte_size \<noteq> 0"
    "\<not> (gpu \<and> (mt = TRITONSERVER_MEMORY_CPU_PINNED \<or> mt = TRITONSERVER_MEMORY_GPU))"
  shows "ResponseAlloc gpu e allocator tensor_name byte_size mt mid userp out w =
    (if malloc e byte_size \<noteq> nullptr then
       (None,
        out\<lparr>actual_memory_type := TRITONSERVER_MEMORY_CPU, actual_memory_type_id := mid,
            buffer := malloc e byte_size,
            buffer_userp := fst (new_string tensor_name (emit (Call_malloc byte_size) w))\<rparr>,
        LOG_MESSAGE e TRITONSERVER_LOG_VERBOSE
          (''allocated '' @ to_string byte_size @ '' bytes in '' @
           TRITONSERVER_MemoryTypeString e TRITONSERVER_MEMORY_CPU @
           '' for result tensor '' @ tensor_name)
          (snd (new_string tensor_name (emit (Call_malloc byte_size) w))))
     else
       (None,
        out\<lparr>actual_memory_type := TRITONSERVER_MEMORY_CPU, actual_memory_type_id := mid\<rparr>,
        emit (Call_malloc byte_size) w))"
  using assms by (auto simp: ResponseAlloc_def ResponseAlloc_switch_def Let_def)

lemma switch_keeps_id:
  "actual_memory_type_id (fst (snd (ResponseAlloc_switch gpu e n out w))) =
   actual_memory_type_id out"
  by (simp add: ResponseAlloc_switch_def Let_def)

text \<open>
  Claim C3. A request of zero bytes returns success (the null error pointer), writes
  null to \<open>buffer\<close> and to \<open>buffer_userp\<close>, and makes no call to \<open>malloc\<close>,
  \<open>cudaHostAlloc\<close> or \<open>cudaMalloc\<close>; no tag object is made either.
\<close>

theorem zero_byte_request:
  "returned (ResponseAlloc gpu e allocator tensor_name 0 mt mid userp out w) = None \<and>
   buffer (outs (ResponseAlloc gpu e allocator tensor_name 0 mt mid userp out w)) = nullptr \<and>
   buffer_userp (outs (ResponseAlloc gpu e allocator tensor_name 0 mt mid userp out w)) = nullptr \<and>
   filter is_allocator_call
     (new_calls w (after (ResponseAlloc gpu e allocator tensor_name 0 mt mid userp out w))) = [] \<and>
   strings (after (ResponseAlloc gpu e allocator tensor_name 0 mt mid userp out w)) = strings w"
  by (simp add: ResponseAlloc_def returned_def outs_def after_def new_calls_def
      calls_LOG_MESSAGE strings_LOG_MESSAGE log_calls_kinds)

text \<open>
  Claim C10. Whatever the request (of zero bytes or not, served by the preferred memory
  type or by \<open>malloc\<close> in its place, returning success or an error), the memory type id
  reported in \<open>actual_memory_type_id\<close> is the preferred one.
\<close>

theorem reported_id_is_preferred_id:
  "actual_memory_type_id
     (outs (ResponseAlloc gpu e allocator tensor_name byte_size mt mid userp out w)) = mid"
proof -
  obtain x out2 w2 where sw: "ResponseAlloc_switch gpu e byte_size
      (out\<lparr>actual_memory_type := mt, actual_memory_type_id := mid\<rparr>) w = (x, out2, w2)"
    by (cases "ResponseAlloc_switch gpu e byte_size
      (out\<lparr>actual_memory_type := mt, actual_memory_type_id := mid\<rparr>) w") auto
  from switch_keeps_id
    [of gpu e byte_size "out\<lparr>actual_memory_type := mt, actual_memory_type_id := mid\<rparr>" w] sw
  have "actual_memory_type_id out2 = mid" by simp
  with sw show ?thesis
    by (cases x) (simp_all add: ResponseAlloc_def outs_def Let_def)
qed



text \<open>
  Claim C1, as stated, fails. The guard after \<open>cudaSetDevice\<close> lets the failures
  \<open>cudaErrorNoDevice\<close> and \<open>cudaErrorInsufficientDriver\<close> pass: on a machine with no
  CUDA device, a request for pinned memory fails to select the device and still issues
  \<open>cudaHostAlloc\<close>; and where that call succeeds, the request returns success with no
  error for the failed selection.
\<close>

theorem ResponseAlloc_selection_failure_counterexample:
  "cudaSetDevice env_no_device (ucast (0 :: int64_t)) \<noteq> cudaSuccess \<and>
   new_calls w0
     (after (ResponseAlloc True env_no_device 0 ''OUTPUT0'' 16 TRITONSERVER_MEMORY_CPU_PINNED 0 0 out0 w0)) =
     [Call_cudaSetDevice 0, Call_cudaHostAlloc 16] \<and>
   cudaSetDevice env_lenient (ucast (0 :: int64_t)) \<noteq> cudaSuccess \<and>
   returned (ResponseAlloc True env_lenient 0 ''OUTPUT0'' 16 TRITONSERVER_MEMORY_GPU 0 0 out0 w0) = None"
  by (simp add: ResponseAlloc_def ResponseAlloc_switch_def Let_def example_envs after_def
      returned_def new_calls_def calls_emit w0_def nullptr_def new_string_def)

text \<open>
  Claim C1, amended. For a request of non-zero size:
  \<^item> in a build with \<open>TRITON_ENABLE_GPU\<close> and for the memory types \<open>CPU_PINNED\<close> and
    \<open>GPU\<close>, when \<open>cudaSetDevice\<close> fails with a code other than \<open>cudaErrorNoDevice\<close> and
    \<open>cudaErrorInsufficientDriver\<close>, the function returns an error, \<open>cudaSetDevice\<close> is
    the only call it made (no allocation call is issued), and \<open>buffer\<close> and
    \<open>buffer_userp\<close> are unwritten;
  \<^item> when \<open>cudaSetDevice\<close> succeeds or fails with one of these two codes, a failure
    of \<open>cudaHostAlloc\<close> (of \<open>cudaMalloc\<close>) returns an error with \<open>buffer\<close> and
    \<open>buffer_userp\<close> unwritten and no tag made;
  \<^item> when the allocation call of the path (\<open>cudaHostAlloc\<close>, \<open>cudaMalloc\<close>, or
    \<open>malloc\<close> on the default path) yields a non-null pointer, the function returns
    success, \<open>buffer\<close> is that pointer, and \<open>buffer_userp\<close> is the non-null address of
    a new string holding the tensor name;
  \<^item> every error return leaves \<open>buffer\<close> and \<open>buffer_userp\<close> unwritten and makes no tag;
  \<^item> when \<open>cudaSetDevice\<close> succeeds or fails with one of these two codes, the next
    call is the allocation call of the path, \<open>cudaHostAlloc\<close> or \<open>cudaMalloc\<close>.
\<close>

theorem ResponseAlloc_outcomes:
  assumes "byte_size \<noteq> 0"
  shows
   "(gpu \<and> (mt = TRITONSERVER_MEMORY_CPU_PINNED \<or> mt = TRITONSERVER_MEMORY_GPU) \<and>
     \<not> tolerated (cudaSetDevice e (ucast mid)) \<longrightarrow>
       failed_clean out w (ResponseAlloc gpu e allocator tensor_name byte_size mt mid userp out w) \<and>
       new_calls w (after (ResponseAlloc gpu e allocator tensor_name byte_size mt mid userp out w)) =
         [Call_cudaSetDevice (ucast mid)]) \<and>
    (gpu \<and> tolerated (cudaSetDevice e (ucast mid)) \<and>
     fst (cudaHostAlloc e byte_size) \<noteq> cudaSuccess \<longrightarrow>
       failed_clean out w (ResponseAlloc gpu e allocator tensor_name byte_size
          TRITONSERVER_MEMORY_CPU_PINNED mid userp out w)) \<and>
    (gpu \<and> tolerated (cudaSetDevice e (ucast mid)) \<and>
     fst (cudaMalloc e byte_size) \<noteq> cudaSuccess \<longrightarrow>
       failed_clean out w (ResponseAlloc gpu e allocator tensor_name byte_size
          TRITONSERVER_MEMORY_GPU mid userp out w)) \<and>
    (gpu \<and> tolerated (cudaSetDevice e (ucast mid)) \<and>
     cudaHostAlloc e byte_size = (cudaSuccess, p) \<and> p \<noteq> nullptr \<longrightarrow>
       granted p tensor_name (ResponseAlloc gpu e allocator tensor_name byte_size
          TRITONSERVER_MEMORY_CPU_PINNED mid userp out w)) \<and>
    (gpu \<and> tolerated (cudaSetDevice e (ucast mid)) \<and>
     cudaMalloc e byte_size = (cudaSuccess, p) \<and> p \<noteq> nullptr \<longrightarrow>
       granted p tensor_name (ResponseAlloc gpu e allocator tensor_name byte_size
          TRITONSERVER_MEMORY_GPU mid userp out w)) \<and>
    (\<not> (gpu \<and> (mt = TRITONSERVER_MEMORY_CPU_PINNED \<or> mt = TRITONSERVER_MEMORY_GPU)) \<and>
     malloc e byte_size = p \<and> p \<noteq> nullptr \<longrightarrow>
       granted p tensor_name (ResponseAlloc gpu e allocator tensor_name byte_size mt mid userp out w)) \<and>
    (returned (ResponseAlloc gpu e allocator tensor_name byte_size mt mid userp out w) \<noteq> None \<longrightarrow>
       failed_clean out w (ResponseAlloc gpu e allocator tensor_name byte_size mt mid userp out w)) \<and>
    (gpu \<and> tolerated (cudaSetDevice e (ucast mid)) \<longrightarrow>
       take 2 (new_calls w (after (ResponseAlloc gpu e allocator tensor_name byte_size
          TRITONSERVER_MEMORY_CPU_PINNED mid userp out w))) =
         [Call_cudaSetDevice (ucast mid), Call_cudaHostAlloc byte_size]) \<and>
    (gpu \<and> tolerated (cudaSetDevice e (ucast mid)) \<longrightarrow>
       take 2 (new_calls w (after (ResponseAlloc gpu e allocator tensor_name byte_size
          TRITONSERVER_MEMORY_GPU mid userp out w))) =
         [Call_cudaSetDevice (ucast mid), Call_cudaMalloc byte_size])"
proof (intro conjI impI)
  assume "gpu \<and> (mt = TRITONSERVER_MEMORY_CPU_PINNED \<or> mt = TRITONSERVER_MEMORY_GPU) \<and>
     \<not> tolerated (cudaSetDevice e (ucast mid))"
  then have r: "ResponseAlloc gpu e allocator tensor_name byte_size mt mid userp out w =
    (Some (TRITONSERVER_ErrorNew TRITONSERVER_ERROR_INTERNAL
       (''unable to recover current CUDA device: '' @
        cudaGetErrorString e (cudaSetDevice e (ucast mid)))),
     out\<lparr>actual_memory_type := mt, actual_memory_type_id := mid\<rparr>,
     emit (Call_cudaSetDevice (ucast mid)) w)"
    using ResponseAlloc_hard_failure [OF assms] by blast
  show "failed_clean out w (ResponseAlloc gpu e allocator tensor_name byte_size mt mid userp out w)"
    by (simp add: r failed_clean_def returned_def outs_def after_def strings_emit)
  show "new_calls w (after (ResponseAlloc gpu e allocator tensor_name byte_size mt mid userp out w)) =
         [Call_cudaSetDevice (ucast mid)]"
    by (simp add: r after_def new_calls_def calls_emit)
next
  assume "gpu \<and> tolerated (cudaSetDevice e (ucast mid)) \<and>
    fst (cudaHostAlloc e byte_size) \<noteq> cudaSuccess"
  then show "failed_clean out w (ResponseAlloc gpu e allocator tensor_name byte_size
          TRITONSERVER_MEMORY_CPU_PINNED mid userp out w)"
    by (simp add: ResponseAlloc_cudaHostAlloc [OF assms] failed_clean_def returned_def outs_def
        after_def strings_emit)
next
  assume "gpu \<and> tolerated (cudaSetDevice e (ucast mid)) \<and>
    fst (cudaMalloc e byte_size) \<noteq> cudaSuccess"
  then show "failed_clean out w (ResponseAlloc gpu e allocator tensor_name byte_size
          TRITONSERVER_MEMORY_GPU mid userp out w)"
    by (simp add: ResponseAlloc_cudaMalloc [OF assms] failed_clean_def returned_def outs_def
        after_def strings_emit)
next
  assume "gpu \<and> tolerated (cudaSetDevice e (ucast mid)) \<and>
    cudaHostAlloc e byte_size = (cudaSuccess, p) \<and> p \<noteq> nullptr"
  then show "granted p tensor_name (ResponseAlloc gpu e allocator tensor_name byte_size
          TRITONSERVER_MEMORY_CPU_PINNED mid userp out w)"
    by (simp add: ResponseAlloc_cudaHostAlloc [OF assms] granted_def returned_def outs_def
        after_def deref_LOG_MESSAGE deref_new_string)
next
  assume "gpu \<and> tolerated (cudaSetDevice e (ucast mid)) \<and>
    cudaMalloc e byte_size = (cudaSuccess, p) \<and> p \<noteq> nullptr"
  then show "granted p tensor_name (ResponseAlloc gpu e allocator tensor_name byte_size
          TRITONSERVER_MEMORY_GPU mid userp out w)"
    by (simp add: ResponseAlloc_cudaMalloc [OF assms] granted_def returned_def outs_def
        after_def deref_LOG_MESSAGE deref_new_string)
next
  assume "\<not> (gpu \<and> (mt = TRITONSERVER_MEMORY_CPU_PINNED \<or> mt = TRITONSERVER_MEMORY_GPU)) \<and>
     malloc e byte_size = p \<and> p \<noteq> nullptr"
  then show "granted p tensor_name
     (ResponseAlloc gpu e allocator tensor_name byte_size mt mid userp out w)"
    using ResponseAlloc_malloc [OF assms, of gpu mt e allocator tensor_name mid userp out w]
    by (simp add: granted_def returned_def outs_def after_def deref_LOG_MESSAGE deref_new_string)
next
  assume err: "returned (ResponseAlloc gpu e allocator tensor_name byte_size mt mid userp out w) \<noteq> None"
  show "failed_clean out w (ResponseAlloc gpu e allocator tensor_name byte_size mt mid userp out w)"
  proof (cases "gpu \<and> (mt = TRITONSERVER_MEMORY_CPU_PINNED \<or> mt = TRITONSERVER_MEMORY_GPU)")
    case False
    with err ResponseAlloc_malloc [OF assms, of gpu mt e allocator tensor_name mid userp out w]
    show ?thesis by (simp add: returned_def split: if_splits)
  next
    case True
    show ?thesis
    proof (cases "tolerated (cudaSetDevice e (ucast mid))")
      case False
      with True ResponseAlloc_hard_failure [OF assms, of gpu mt e mid allocator tensor_name userp out w]
      show ?thesis
        by (simp add: failed_clean_def returned_def outs_def after_def strings_emit)
    next
      case tol: True
      from True have "mt = TRITONSERVER_MEMORY_CPU_PINNED \<or> mt = TRITONSERVER_MEMORY_GPU"
        by simp
      then show ?thesis
      proof
        assume "mt = TRITONSERVER_MEMORY_CPU_PINNED"
        with err True tol show ?thesis
          by (simp add: ResponseAlloc_cudaHostAlloc [OF assms] failed_clean_def returned_def
              outs_def after_def strings_emit split: if_splits)
      next
        assume "mt = TRITONSERVER_MEMORY_GPU"
        with err True tol show ?thesis
          by (simp add: ResponseAlloc_cudaMalloc [OF assms] failed_clean_def returned_def
              outs_def after_def strings_emit split: if_splits)
      qed
    qed
  qed
next
  assume "gpu \<and> tolerated (cudaSetDevice e (ucast mid))"
  then show "take 2 (new_calls w (after (ResponseAlloc gpu e allocator tensor_name byte_size
          TRITONSERVER_MEMORY_CPU_PINNED mid userp out w))) =
         [Call_cudaSetDevice (ucast mid), Call_cudaHostAlloc byte_size]"
    by (simp add: ResponseAlloc_cudaHostAlloc [OF assms] after_def new_calls_def calls_emit
        calls_LOG_MESSAGE calls_new_string strings_emit)
next
  assume "gpu \<and> tolerated (cudaSetDevice e (ucast mid))"
  then show "take 2 (new_calls w (after (ResponseAlloc gpu e allocator tensor_name byte_size
          TRITONSERVER_MEMORY_GPU mid userp out w))) =
         [Call_cudaSetDevice (ucast mid), Call_cudaMalloc byte_size]"
    by (simp add: ResponseAlloc_cudaMalloc [OF assms] after_def new_calls_def calls_emit
        calls_LOG_MESSAGE calls_new_string strings_emit)
qed

theorem ResponseAlloc_outcomes_witness:
  "(16::nat) \<noteq> 0 \<and>
   \<not> tolerated (cudaSetDevice env_bad_device (ucast (3 :: int64_t))) \<and>
   failed_clean out0 w0
     (ResponseAlloc True env_bad_device 0 ''OUTPUT0'' 16 TRITONSERVER_MEMORY_GPU 3 0 out0 w0) \<and>
   new_calls w0
     (after (ResponseAlloc True env_bad_device 0 ''OUTPUT0'' 16 TRITONSERVER_MEMORY_GPU 3 0 out0 w0)) =
     [Call_cudaSetDevice 3] \<and>
   returned (ResponseAlloc True env_bad_device 0 ''OUTPUT0'' 16 TRITONSERVER_MEMORY_GPU 3 0 out0 w0) \<noteq>
     None \<and>
   tolerated (cudaSetDevice env_exhausted (ucast (3 :: int64_t))) \<and>
   fst (cudaHostAlloc env_exhausted 16) \<noteq> cudaSuccess \<and>
   failed_clean out0 w0
     (ResponseAlloc True env_exhausted 0 ''OUTPUT0'' 16 TRITONSERVER_MEMORY_CPU_PINNED 3 0 out0 w0) \<and>
   fst (cudaMalloc env_exhausted 16) \<noteq> cudaSuccess \<and>
   failed_clean out0 w0
     (ResponseAlloc True env_exhausted 0 ''OUTPUT0'' 16 TRITONSERVER_MEMORY_GPU 3 0 out0 w0) \<and>
   tolerated (cudaSetDevice env_ok (ucast (3 :: int64_t))) \<and>
   cudaHostAlloc env_ok 16 = (cudaSuccess, 4096) \<and> 4096 \<noteq> nullptr \<and>
   granted 4096 ''OUTPUT0''
     (ResponseAlloc True env_ok 0 ''OUTPUT0'' 16 TRITONSERVER_MEMORY_CPU_PINNED 3 0 out0 w0) \<and>
   cudaMalloc env_ok 16 = (cudaSuccess, 8192) \<and> 8192 \<noteq> nullptr \<and>
   granted 8192 ''OUTPUT0''
     (ResponseAlloc True env_ok 0 ''OUTPUT0'' 16 TRITONSERVER_MEMORY_GPU 3 0 out0 w0) \<and>
   malloc env_ok 16 = 1024 \<and> 1024 \<noteq> nullptr \<and>
   granted 1024 ''OUTPUT0''
     (ResponseAlloc False env_ok 0 ''OUTPUT0'' 16 TRITONSERVER_MEMORY_CPU 3 0 out0 w0) \<and>
   tolerated (cudaSetDevice env_no_device (ucast (3 :: int64_t))) \<and>
   cudaSetDevice env_no_device (ucast (3 :: int64_t)) \<noteq> cudaSuccess \<and>
   take 2 (new_calls w0 (after
     (ResponseAlloc True env_no_device 0 ''OUTPUT0'' 16 TRITONSERVER_MEMORY_CPU_PINNED 3 0 out0 w0))) =
     [Call_cudaSetDevice (ucast (3 :: int64_t)), Call_cudaHostAlloc 16] \<and>
   take 2 (new_calls w0 (after
     (ResponseAlloc True env_no_device 0 ''OUTPUT0'' 16 TRITONSERVER_MEMORY_GPU 3 0 out0 w0))) =
     [Call_cudaSetDevice (ucast (3 :: int64_t)), Call_cudaMalloc 16]"
proof -
  have n: "(16::nat) \<noteq> 0" by simp
  have bad: "\<not> tolerated (cudaSetDevice env_bad_device (ucast (3 :: int64_t)))"
    by (simp add: tolerated_def example_envs)
  have exh: "tolerated (cudaSetDevice env_exhausted (ucast (3 :: int64_t)))"
    "fst (cudaHostAlloc env_exhausted 16) \<noteq> cudaSuccess"
    "fst (cudaMalloc env_exhausted 16) \<noteq> cudaSuccess"
    by (simp_all add: tolerated_def example_envs)
  have ok: "tolerated (cudaSetDevice env_ok (ucast (3 :: int64_t)))"
    "cudaHostAlloc env_ok 16 = (cudaSuccess, 4096)" "4096 \<noteq> nullptr"
    "cudaMalloc env_ok 16 = (cudaSuccess, 8192)" "8192 \<noteq> nullptr"
    "malloc env_ok 16 = 1024" "1024 \<noteq> nullptr"
    by (simp_all add: tolerated_def example_envs nullptr_def)
  note a = ResponseAlloc_outcomes [OF n, where gpu = True and mt = TRITONSERVER_MEMORY_GPU
      and e = env_bad_device and mid = 3 and out = out0 and w = w0 and allocator = 0
      and tensor_name = "''OUTPUT0''" and userp = 0]
  note b = ResponseAlloc_outcomes [OF n, where gpu = True and e = env_exhausted and mid = 3
      and out = out0 and w = w0 and allocator = 0 and tensor_name = "''OUTPUT0''" and userp = 0]
  note c = ResponseAlloc_outcomes [OF n, where gpu = True and e = env_ok and mid = 3
      and out = out0 and w = w0 and allocator = 0 and tensor_name = "''OUTPUT0''" and userp = 0
      and p = 4096]
  note d = ResponseAlloc_outcomes [OF n, where gpu = True and e = env_ok and mid = 3
      and out = out0 and w = w0 and allocator = 0 and tensor_name = "''OUTPUT0''" and userp = 0
      and p = 8192]
  note f = ResponseAlloc_outcomes [OF n, where gpu = False and mt = TRITONSERVER_MEMORY_CPU
      and e = env_ok and mid = 3 and out = out0 and w = w0 and allocator = 0
      and tensor_name = "''OUTPUT0''" and userp = 0 and p = 1024]
  from a bad have a': "failed_clean out0 w0
     (ResponseAlloc True env_bad_device 0 ''OUTPUT0'' 16 TRITONSERVER_MEMORY_GPU 3 0 out0 w0)"
    "new_calls w0
     (after (ResponseAlloc True env_bad_device 0 ''OUTPUT0'' 16 TRITONSERVER_MEMORY_GPU 3 0 out0 w0)) =
     [Call_cudaSetDevice 3]"
    by simp_all
  from a'(1) have a'': "returned
     (ResponseAlloc True env_bad_device 0 ''OUTPUT0'' 16 TRITONSERVER_MEMORY_GPU 3 0 out0 w0) \<noteq> None"
    by (simp add: failed_clean_def)
  from b exh have b': "failed_clean out0 w0
     (ResponseAlloc True env_exhausted 0 ''OUTPUT0'' 16 TRITONSERVER_MEMORY_CPU_PINNED 3 0 out0 w0)"
     "failed_clean out0 w0
     (ResponseAlloc True env_exhausted 0 ''OUTPUT0'' 16 TRITONSERVER_MEMORY_GPU 3 0 out0 w0)"
    by simp_all
  from c ok have c': "granted 4096 ''OUTPUT0''
     (ResponseAlloc True env_ok 0 ''OUTPUT0'' 16 TRITONSERVER_MEMORY_CPU_PINNED 3 0 out0 w0)"
    by simp
  from d ok have d': "granted 8192 ''OUTPUT0''
     (ResponseAlloc True env_ok 0 ''OUTPUT0'' 16 TRITONSERVER_MEMORY_GPU 3 0 out0 w0)"
    by simp
  from f ok have f': "granted 1024 ''OUTPUT0''
     (ResponseAlloc False env_ok 0 ''OUTPUT0'' 16 TRITONSERVER_MEMORY_CPU 3 0 out0 w0)"
    by simp
  have nodev: "tolerated (cudaSetDevice env_no_device (ucast (3 :: int64_t)))"
    "cudaSetDevice env_no_device (ucast (3 :: int64_t)) \<noteq> cudaSuccess"
    by (simp_all add: tolerated_def example_envs)
  note g = ResponseAlloc_outcomes [OF n, where gpu = True and e = env_no_device and mid = 3
      and out = out0 and w = w0 and allocator = 0 and tensor_name = "''OUTPUT0''" and userp = 0]
  from g nodev have g': "take 2 (new_calls w0 (after
     (ResponseAlloc True env_no_device 0 ''OUTPUT0'' 16 TRITONSERVER_MEMORY_CPU_PINNED 3 0 out0 w0))) =
     [Call_cudaSetDevice (ucast (3 :: int64_t)), Call_cudaHostAlloc 16]"
    "take 2 (new_calls w0 (after
     (ResponseAlloc True env_no_device 0 ''OUTPUT0'' 16 TRITONSERVER_MEMORY_GPU 3 0 out0 w0))) =
     [Call_cudaSetDevice (ucast (3 :: int64_t)), Call_cudaMalloc 16]"
    by simp_all
  from n bad a' a'' exh b' ok c' d' f' nodev g' show ?thesis
    by (simp only: simp_thms)
qed

text \<open>
  A further fact, on the path that calls \<open>malloc\<close>: a null pointer returned by
  \<open>malloc\<close> is not reported. The function returns success and leaves \<open>buffer\<close> and
  \<open>buffer_userp\<close> unwritten, where the two CUDA paths return an error for a failed
  allocation.
\<close>

lemma ResponseAlloc_malloc_null:
  assumes "byte_size \<noteq> 0"
    and "\<not> (gpu \<and> (mt = TRITONSERVER_MEMORY_CPU_PINNED \<or> mt = TRITONSERVER_MEMORY_GPU))"
    and "malloc e byte_size = nullptr"
  shows "returned (ResponseAlloc gpu e allocator tensor_name byte_size mt mid userp out w) = None \<and>
    buffer (outs (ResponseAlloc gpu e allocator tensor_name byte_size mt mid userp out w)) = buffer out \<and>
    buffer_userp (outs (ResponseAlloc gpu e allocator tensor_name byte_size mt mid userp out w)) =
      buffer_userp out"
  using assms(3)
  by (simp add: ResponseAlloc_malloc [OF assms(1,2)] returned_def outs_def)

lemma ResponseAlloc_malloc_null_example:
  "returned (ResponseAlloc False env_exhausted 0 ''OUTPUT0'' 16 TRITONSERVER_MEMORY_CPU 0 0 out0 w0) = None \<and>
   buffer (outs (ResponseAlloc False env_exhausted 0 ''OUTPUT0'' 16 TRITONSERVER_MEMORY_CPU 0 0 out0 w0)) = 77 \<and>
   buffer_userp (outs (ResponseAlloc False env_exhausted 0 ''OUTPUT0'' 16 TRITONSERVER_MEMORY_CPU 0 0 out0 w0)) = 88"
  using ResponseAlloc_malloc_null [of 16 False TRITONSERVER_MEMORY_CPU env_exhausted 0 "''OUTPUT0''"
      0 0 out0 w0]
  by (simp add: example_envs nullptr_def out0_def)

section \<open>Properties of ResponseRelease\<close>

lemma calls_release_switch:
  "calls (ResponseRelease_switch gpu e buf mt mid w) = calls w @ release_calls gpu e buf mt mid"
  by (simp add: ResponseRelease_switch_def release_calls_def Let_def calls_emit)

lemma strings_release_switch:
  "strings (ResponseRelease_switch gpu e buf mt mid w) = strings w"
  by (simp add: ResponseRelease_switch_def Let_def strings_emit)

lemma release_calls_no_delete: "filter is_delete (release_calls gpu e buf mt mid) = []"
  by (simp add: ResponseRelease_switch_def release_calls_def Let_def calls_emit)

lemma release_calls_unexpected:
  "unexpected gpu mt \<Longrightarrow>
   release_calls gpu e buf mt mid =
     [Call_cerr (''error: unexpected buffer allocated in CUDA managed memory'' @ [CHR 0x0A])]"
  by (auto simp: unexpected_def ResponseRelease_switch_def release_calls_def calls_emit
      split: if_splits)

lemma release_calls_failed:
  "dealloc_failed gpu e buf mt mid \<Longrightarrow>
   \<exists>err. err \<noteq> cudaSuccess \<and>
     filter is_cerr (release_calls gpu e buf mt mid) =
       [Call_cerr (''error: failed to cudaFree '' @ ptr_string e buf @ '': '' @
                   cudaGetErrorString e err @ [CHR 0x0A])]"
  by (auto simp: dealloc_failed_def ResponseRelease_switch_def release_calls_def Let_def calls_emit)

lemma release_calls_quiet:
  "\<not> unexpected gpu mt \<Longrightarrow> \<not> dealloc_failed gpu e buf mt mid \<Longrightarrow>
   filter is_cerr (release_calls gpu e buf mt mid) = []"
  by (auto simp: unexpected_def dealloc_failed_def ResponseRelease_switch_def release_calls_def
      Let_def calls_emit split: if_splits)

lemma deref_delete: "deref_string (delete_string p w) p = None"
  by (auto simp: deref_string_def delete_string_def strings_emit nullptr_def)

lemma deref_delete_other:
  "p \<noteq> q \<Longrightarrow> q \<noteq> nullptr \<Longrightarrow> deref_string (delete_string q w) p = deref_string w p"
  by (auto simp: deref_string_def delete_string_def strings_emit nullptr_def nth_list_update)

lemma deref_release_switch:
  "deref_string (ResponseRelease_switch gpu e buf mt mid w) p = deref_string w p"
  by (simp add: deref_string_def strings_release_switch)

lemma deref_new_string_other:
  "p \<noteq> Suc (length (strings w)) \<Longrightarrow> deref_string (snd (new_string s w)) p = deref_string w p"
  by (auto simp: deref_string_def new_string_def Let_def strings_emit nth_append nullptr_def)

text \<open>
  What \<open>ResponseRelease\<close> returns, the calls it makes and the strings it leaves, when
  the tag is null or the address of a live string.
\<close>

lemma ResponseRelease_result:
  assumes "buf_userp = nullptr \<or> deref_string w buf_userp \<noteq> None"
  shows "\<exists>w' m. ResponseRelease gpu e allocator buf buf_userp byte_size mt mid w = Inr (None, w') \<and>
    new_calls w w' =
       (if buf_userp \<noteq> nullptr then []
        else [Call_new_string (name_of w buf_userp) ''<unknown>'']) @
       log_calls e TRITONSERVER_LOG_VERBOSE m @ release_calls gpu e buf mt mid @
       [Call_delete_string (name_of w buf_userp)] \<and>
    deref_string w' (name_of w buf_userp) = None \<and>
    (\<forall>p. p \<noteq> name_of w buf_userp \<longrightarrow> deref_string w' p = deref_string w p)"
proof (cases "buf_userp = nullptr")
  case True
  have "Suc (length (strings w)) \<noteq> nullptr" by (simp add: nullptr_def)
  with True show ?thesis
    by (simp add: ResponseRelease_def Let_def fst_new_string deref_new_string_Suc name_of_def
        deref_delete deref_delete_other deref_release_switch deref_LOG_MESSAGE
        deref_new_string_other)
       (auto simp: new_calls_def delete_string_def calls_emit calls_release_switch
         calls_LOG_MESSAGE calls_new_string nullptr_def)
next
  case False
  with assms obtain s where "deref_string w buf_userp = Some s" by auto
  with False show ?thesis
    by (simp add: ResponseRelease_def Let_def name_of_def deref_delete deref_delete_other
        deref_release_switch deref_LOG_MESSAGE)
       (auto simp: new_calls_def delete_string_def calls_emit calls_release_switch
         calls_LOG_MESSAGE nullptr_def)
qed

text \<open>
  Claim C8. Called with a tag that is null or the address of a live string,
  \<open>ResponseRelease\<close> returns, and what it returns is success (the null error pointer),
  for every buffer, size, memory type and device id and whatever the deallocation calls
  answer. It deletes one string object, once: the tag, or, when the tag is null, a
  placeholder it has just made holding \<open><unknown>\<close>; every other string is left as it
  was. A memory type with no case in the \<open>switch\<close> and a native deallocation that
  fails each show as one line on \<open>std::cerr\<close>, and nothing else is written there.
\<close>

theorem ResponseRelease_always_succeeds:
  assumes "buf_userp = nullptr \<or> deref_string w buf_userp \<noteq> None"
  shows "\<exists>w'. ResponseRelease gpu e allocator buf buf_userp byte_size mt mid w = Inr (None, w') \<and>
    filter is_delete (new_calls w w') = [Call_delete_string (name_of w buf_userp)] \<and>
    deref_string w' (name_of w buf_userp) = None \<and>
    (\<forall>p. p \<noteq> name_of w buf_userp \<longrightarrow> deref_string w' p = deref_string w p) \<and>
    (buf_userp = nullptr \<longrightarrow>
       Call_new_string (name_of w buf_userp) ''<unknown>'' \<in> set (new_calls w w')) \<and>
    (unexpected gpu mt \<longrightarrow>
       filter is_cerr (new_calls w w') =
         [Call_cerr (''error: unexpected buffer allocated in CUDA managed memory'' @ [CHR 0x0A])]) \<and>
    (dealloc_failed gpu e buf mt mid \<longrightarrow>
       (\<exists>err. err \<noteq> cudaSuccess \<and>
          filter is_cerr (new_calls w w') =
            [Call_cerr (''error: failed to cudaFree '' @ ptr_string e buf @ '': '' @
                        cudaGetErrorString e err @ [CHR 0x0A])])) \<and>
    (\<not> unexpected gpu mt \<and> \<not> dealloc_failed gpu e buf mt mid \<longrightarrow>
       filter is_cerr (new_calls w w') = [])"
proof -
  from ResponseRelease_result [OF assms, of gpu e allocator buf byte_size mt mid]
  obtain w' m where r: "ResponseRelease gpu e allocator buf buf_userp byte_size mt mid w = Inr (None, w')"
    and c: "new_calls w w' =
       (if buf_userp \<noteq> nullptr then []
        else [Call_new_string (name_of w buf_userp) ''<unknown>'']) @
       log_calls e TRITONSERVER_LOG_VERBOSE m @ release_calls gpu e buf mt mid @
       [Call_delete_string (name_of w buf_userp)]"
    and d: "deref_string w' (name_of w buf_userp) = None"
    and o: "\<forall>p. p \<noteq> name_of w buf_userp \<longrightarrow> deref_string w' p = deref_string w p"
    by blast
  have del: "filter is_delete (new_calls w w') = [Call_delete_string (name_of w buf_userp)]"
    by (simp add: c log_calls_kinds release_calls_no_delete)
  have new: "buf_userp = nullptr \<longrightarrow>
       Call_new_string (name_of w buf_userp) ''<unknown>'' \<in> set (new_calls w w')"
    by (simp add: c)
  have cerr: "filter is_cerr (new_calls w w') = filter is_cerr (release_calls gpu e buf mt mid)"
    by (simp add: c log_calls_kinds)
  have unexp: "unexpected gpu mt \<longrightarrow>
       filter is_cerr (new_calls w w') =
         [Call_cerr (''error: unexpected buffer allocated in CUDA managed memory'' @ [CHR 0x0A])]"
    by (simp add: cerr release_calls_unexpected)
  have failed: "dealloc_failed gpu e buf mt mid \<longrightarrow>
       (\<exists>err. err \<noteq> cudaSuccess \<and>
          filter is_cerr (new_calls w w') =
            [Call_cerr (''error: failed to cudaFree '' @ ptr_string e buf @ '': '' @
                        cudaGetErrorString e err @ [CHR 0x0A])])"
    using release_calls_failed [of gpu e buf mt mid] by (simp add: cerr)
  have quiet: "\<not> unexpected gpu mt \<and> \<not> dealloc_failed gpu e buf mt mid \<longrightarrow>
       filter is_cerr (new_calls w w') = []"
    by (simp add: cerr release_calls_quiet)
  from r del d o new unexp failed quiet show ?thesis
    by blast
qed

theorem ResponseRelease_always_succeeds_witness:
  "deref_string w1 3 \<noteq> None \<and>
   (\<exists>w'. ResponseRelease True env_ok 0 4096 3 16 TRITONSERVER_MEMORY_CPU 0 w1 = Inr (None, w') \<and>
      filter is_delete (new_calls w1 w') = [Call_delete_string 3] \<and>
      deref_string w' 3 = None \<and>
      deref_string w' 1 = Some ''OUTPUT0'' \<and>
      filter is_cerr (new_calls w1 w') = []) \<and>
   (0::ptr) = nullptr \<and> dealloc_failed True env_free_fails 4096 TRITONSERVER_MEMORY_GPU 0 \<and>
   (\<exists>w'. ResponseRelease True env_free_fails 0 4096 0 16 TRITONSERVER_MEMORY_GPU 0 w0 = Inr (None, w') \<and>
      filter is_delete (new_calls w0 w') = [Call_delete_string 1] \<and>
      Call_new_string 1 ''<unknown>'' \<in> set (new_calls w0 w') \<and>
      deref_string w' 1 = None \<and>
      filter is_cerr (new_calls w0 w') =
        [Call_cerr (''error: failed to cudaFree '' @ ptr_string env_free_fails 4096 @ '': '' @
                    ''cuda error'' @ [CHR 0x0A])]) \<and>
   unexpected False TRITONSERVER_MEMORY_GPU \<and>
   (\<exists>w'. ResponseRelease False env_ok 0 4096 0 16 TRITONSERVER_MEMORY_GPU 0 w0 = Inr (None, w') \<and>
      filter is_cerr (new_calls w0 w') =
        [Call_cerr (''error: unexpected buffer allocated in CUDA managed memory'' @ [CHR 0x0A])])"
proof -
  have live: "deref_string w1 3 \<noteq> None"
    by (simp add: deref_string_def w1_def nullptr_def)
  have null: "(0::ptr) = nullptr"
    by (simp add: nullptr_def)
  have names: "name_of w1 3 = 3" "name_of w0 0 = 1"
    by (simp_all add: name_of_def nullptr_def w0_def)
  have first: "deref_string w1 1 = Some ''OUTPUT0''"
    by (simp add: deref_string_def w1_def nullptr_def)
  have quiet: "\<not> unexpected True TRITONSERVER_MEMORY_CPU"
    "\<not> dealloc_failed True env_ok 4096 TRITONSERVER_MEMORY_CPU 0"
    by (simp_all add: unexpected_def dealloc_failed_def)
  have failed: "dealloc_failed True env_free_fails 4096 TRITONSERVER_MEMORY_GPU 0"
    by (simp add: dealloc_failed_def example_envs)
  have unexp: "unexpected False TRITONSERVER_MEMORY_GPU"
    by (simp add: unexpected_def)
  have msg: "cudaGetErrorString env_free_fails err = ''cuda error''" for err
    by (simp add: example_envs)
  from ResponseRelease_always_succeeds [where buf_userp = 3 and w = w1 and gpu = True
      and e = env_ok and allocator = 0 and buf = 4096 and byte_size = 16
      and mt = TRITONSERVER_MEMORY_CPU and mid = 0] live names first quiet
  have a: "\<exists>w'. ResponseRelease True env_ok 0 4096 3 16 TRITONSERVER_MEMORY_CPU 0 w1 = Inr (None, w') \<and>
      filter is_delete (new_calls w1 w') = [Call_delete_string 3] \<and>
      deref_string w' 3 = None \<and>
      deref_string w' 1 = Some ''OUTPUT0'' \<and>
      filter is_cerr (new_calls w1 w') = []"
    by fastforce
  from ResponseRelease_always_succeeds [where buf_userp = 0 and w = w0 and gpu = True
      and e = env_free_fails and allocator = 0 and buf = 4096 and byte_size = 16
      and mt = TRITONSERVER_MEMORY_GPU and mid = 0] null names failed msg
  have b: "\<exists>w'. ResponseRelease True env_free_fails 0 4096 0 16 TRITONSERVER_MEMORY_GPU 0 w0 =
        Inr (None, w') \<and>
      filter is_delete (new_calls w0 w') = [Call_delete_string 1] \<and>
      Call_new_string 1 ''<unknown>'' \<in> set (new_calls w0 w') \<and>
      deref_string w' 1 = None \<and>
      filter is_cerr (new_calls w0 w') =
        [Call_cerr (''error: failed to cudaFree '' @ ptr_string env_free_fails 4096 @ '': '' @
                    ''cuda error'' @ [CHR 0x0A])]"
    by fastforce
  from ResponseRelease_always_succeeds [where buf_userp = 0 and w = w0 and gpu = False
      and e = env_ok and allocator = 0 and buf = 4096 and byte_size = 16
      and mt = TRITONSERVER_MEMORY_GPU and mid = 0] null unexp
  have c: "\<exists>w'. ResponseRelease False env_ok 0 4096 0 16 TRITONSERVER_MEMORY_GPU 0 w0 = Inr (None, w') \<and>
      filter is_cerr (new_calls w0 w') =
        [Call_cerr (''error: unexpected buffer allocated in CUDA managed memory'' @ [CHR 0x0A])]"
    by fastforce
  from live a null failed b unexp c show ?thesis
    by (simp only: simp_thms)
qed

section \<open>Properties of InferResponseComplete\<close>

lemma fire_all_spent_state: "spent s userp \<Longrightarrow> snd (fire_all userp cs s) = s"
  by (induction cs) (auto simp: spent_def InferResponseComplete_def split: option.splits)

lemma fulfilled_is_spent:
  assumes "response \<noteq> nullptr" "InferResponseComplete response flags userp s = Inr s'"
  shows "spent s' userp" and "fulfilments s' = fulfilments s @ [(userp, response)]"
  using assms
  by (auto simp: InferResponseComplete_def spent_def split: option.splits if_splits)

lemma fire_all_at_most_once:
  "length (fulfilments (snd (fire_all userp cs s))) \<le> Suc (length (fulfilments s))"
proof (induction cs arbitrary: s)
  case Nil
  then show ?case by simp
next
  case (Cons c cs)
  obtain response flags where c: "c = (response, flags)" by (cases c)
  show ?case
  proof (cases "InferResponseComplete response flags userp s")
    case (Inl f)
    with c show ?thesis by simp
  next
    case (Inr s')
    show ?thesis
    proof (cases "response = nullptr")
      case True
      with Inr have "s' = s" by (simp add: InferResponseComplete_def)
      with Inr c Cons.IH [of s] show ?thesis by simp
    next
      case False
      from fulfilled_is_spent [OF False Inr]
      have "spent s' userp" and "length (fulfilments s') = Suc (length (fulfilments s))"
        by simp_all
      with fire_all_spent_state [of s' userp cs] Inr c show ?thesis by simp
    qed
  qed
qed

text \<open>
  Claim C2. Fired with a non-null response on a live promise that holds no value,
  \<open>InferResponseComplete\<close> stores that response in the promise's shared state, once
  (one entry is added to \<open>fulfilments\<close>), and deletes the promise. Fired with a null
  response it changes nothing: no value is stored, and the shared state, which is what
  releases the waiter, stays as it was. However often and with whatever responses the
  handler is fired for one \<open>userp\<close>, at most one value is stored: once the promise is
  fulfilled it is deleted, and a later firing with a non-null response is a use of a
  deleted object, at which the model stops.
\<close>

theorem InferResponseComplete_fulfils_once:
  "(response \<noteq> nullptr \<and> promises s userp = Some \<lparr>live = True, shared_state = None\<rparr> \<longrightarrow>
      (\<exists>s'. InferResponseComplete response flags userp s = Inr s' \<and>
         promises s' userp = Some \<lparr>live = False, shared_state = Some response\<rparr> \<and>
         (\<forall>q. q \<noteq> userp \<longrightarrow> promises s' q = promises s q) \<and>
         fulfilments s' = fulfilments s @ [(userp, response)] \<and>
         (\<forall>r2 flags2. r2 \<noteq> nullptr \<longrightarrow>
            InferResponseComplete r2 flags2 userp s' = Inl Invalid_pointer))) \<and>
   InferResponseComplete nullptr flags userp s = Inr s \<and>
   length (fulfilments (snd (fire_all userp cs s))) \<le> Suc (length (fulfilments s))"
proof (intro conjI impI)
  assume a: "response \<noteq> nullptr \<and> promises s userp = Some \<lparr>live = True, shared_state = None\<rparr>"
  then show "\<exists>s'. InferResponseComplete response flags userp s = Inr s' \<and>
         promises s' userp = Some \<lparr>live = False, shared_state = Some response\<rparr> \<and>
         (\<forall>q. q \<noteq> userp \<longrightarrow> promises s' q = promises s q) \<and>
         fulfilments s' = fulfilments s @ [(userp, response)] \<and>
         (\<forall>r2 flags2. r2 \<noteq> nullptr \<longrightarrow>
            InferResponseComplete r2 flags2 userp s' = Inl Invalid_pointer)"
    by (simp add: InferResponseComplete_def)
next
  show "InferResponseComplete nullptr flags userp s = Inr s"
    by (simp add: InferResponseComplete_def)
next
  show "length (fulfilments (snd (fire_all userp cs s))) \<le> Suc (length (fulfilments s))"
    by (rule fire_all_at_most_once)
qed

theorem InferResponseComplete_fulfils_once_witness:
  "(7::ptr) \<noteq> nullptr \<and> promises s0 500 = Some \<lparr>live = True, shared_state = None\<rparr> \<and>
   (\<exists>s'. InferResponseComplete 7 0 500 s0 = Inr s' \<and>
      promises s' 500 = Some \<lparr>live = False, shared_state = Some 7\<rparr> \<and>
      fulfilments s' = [(500, 7)] \<and>
      InferResponseComplete 8 0 500 s' = Inl Invalid_pointer) \<and>
   InferResponseComplete nullptr 0 500 s0 = Inr s0 \<and>
   length (fulfilments (snd (fire_all 500 [(0, 0), (7, 0), (0, 0), (8, 0)] s0))) \<le> 1"
proof -
  have h: "(7::ptr) \<noteq> nullptr" "(8::ptr) \<noteq> nullptr"
    "promises s0 500 = Some \<lparr>live = True, shared_state = None\<rparr>" "fulfilments s0 = []"
    by (simp_all add: nullptr_def s0_def)
  note t = InferResponseComplete_fulfils_once [where response = 7 and s = s0 and userp = 500
      and flags = 0 and cs = "[(0, 0), (7, 0), (0, 0), (8, 0)]"]
  from t h have a: "\<exists>s'. InferResponseComplete 7 0 500 s0 = Inr s' \<and>
      promises s' 500 = Some \<lparr>live = False, shared_state = Some 7\<rparr> \<and>
      fulfilments s' = [(500, 7)] \<and>
      InferResponseComplete 8 0 500 s' = Inl Invalid_pointer"
    by fastforce
  from t have b: "InferResponseComplete nullptr 0 500 s0 = Inr s0"
    by simp
  from t h have c: "length (fulfilments (snd (fire_all 500 [(0, 0), (7, 0), (0, 0), (8, 0)] s0))) \<le> 1"
    by simp
  from h a b c show ?thesis
    by (simp only: simp_thms)
qed

end
